theory Spec2Isabelle
  imports Main "HOL-Library.Word"
begin

section \<open>JavaScript values, exceptions and the platform library\<close>

text \<open>
  The authentication core of the repository is \<^verbatim>\<open>src/lib/auth.ts\<close> together with the
  route handlers \<^verbatim>\<open>src/app/api/auth/create-jwt/route.ts\<close> and
  \<^verbatim>\<open>src/app/api/auth/check/route.ts\<close>.  The handlers receive whatever
  \<^verbatim>\<open>request.json()\<close> parsed, so values are modelled as JavaScript values, not as the
  TypeScript annotations describe them.  \<open>JUndefined\<close> is what reading an absent
  property yields.  Numbers are integers: the code only produces and compares
  integral timestamps; a \<^verbatim>\<open>NaN\<close> (from \<^verbatim>\<open>parseInt\<close>) is \<open>None\<close> of
  \<open>int option\<close>.  Strings are lists of \<open>char\<close>, one per code unit.
\<close>

type_synonym byte = "8 word"

datatype jsval =
    JUndefined
  | JNull
  | JBool bool
  | JNum int
  | JStr string
  | JArr "jsval list"
  | JObj "(string \<times> jsval) list"

text \<open>A thrown value.  Only its presence matters to the code, which never inspects it.\<close>

datatype exn = TypeError string | SyntaxError string | Error string

text \<open>The operand of \<^verbatim>\<open>!x\<close>: \<^verbatim>\<open>undefined\<close>, \<^verbatim>\<open>null\<close>, \<^verbatim>\<open>false\<close>,
  \<^verbatim>\<open>0\<close> and \<^verbatim>\<open>""\<close> are falsy, everything else (every array and object) is truthy.\<close>

fun truthy :: "jsval \<Rightarrow> bool" where
  "truthy JUndefined = False"
| "truthy JNull = False"
| "truthy (JBool b) = b"
| "truthy (JNum n) = (n \<noteq> 0)"
| "truthy (JStr s) = (s \<noteq> [])"
| "truthy (JArr xs) = True"
| "truthy (JObj kvs) = True"

text \<open>Reading a property \<^verbatim>\<open>v.k\<close> for the keys the code reads (\<^verbatim>\<open>address\<close>,
  \<^verbatim>\<open>signature\<close>, \<^verbatim>\<open>publicKey\<close>, \<^verbatim>\<open>nonce\<close>, \<^verbatim>\<open>payload\<close>, \<^verbatim>\<open>exp\<close>, ...): an
  object yields its own property (the list holds one entry per key), a primitive or
  an array has no property of these names, and \<^verbatim>\<open>null\<close> and \<^verbatim>\<open>undefined\<close> throw.\<close>

fun getProp :: "jsval \<Rightarrow> string \<Rightarrow> exn + jsval" where
  "getProp JUndefined k = Inl (TypeError ''Cannot read properties of undefined'')"
| "getProp JNull k = Inl (TypeError ''Cannot read properties of null'')"
| "getProp (JObj kvs) k = Inr (case map_of kvs k of None \<Rightarrow> JUndefined | Some v \<Rightarrow> v)"
| "getProp v k = Inr JUndefined"

text \<open>
  The third-party libraries and platform functions the code calls are parameters:
  \<^item> \<open>jws_sign key header payload\<close>: the compact serialisation \<^verbatim>\<open>jose\<close> produces in
    \<^verbatim>\<open>SignJWT.sign(key)\<close> for a protected header and a claims set;
  \<^item> \<open>jws_open key token\<close>: the signature check and payload decoding of
    \<^verbatim>\<open>jose.jwtVerify\<close> (it throws when the token is not a compact JWS whose MAC
    verifies under the key);
  \<^item> \<open>Buffer_from_hex v\<close>: \<^verbatim>\<open>Buffer.from(v, 'hex')\<close>, which may throw or truncate on
    malformed input depending on the runtime's implementation;
  \<^item> \<open>crypto_sign_open msg sig pk\<close>: the Ed25519 check inside
    \<^verbatim>\<open>nacl.sign.detached.verify\<close>, once the sizes have been checked.
  \<open>JWT_SECRET\<close> is \<^verbatim>\<open>process.env.JWT_SECRET\<close>.
\<close>

record env =
  JWT_SECRET :: string
  jws_sign :: "byte list \<Rightarrow> jsval \<Rightarrow> jsval \<Rightarrow> string"
  jws_open :: "byte list \<Rightarrow> string \<Rightarrow> exn + jsval"
  Buffer_from_hex :: "jsval \<Rightarrow> exn + byte list"
  crypto_sign_open :: "byte list \<Rightarrow> byte list \<Rightarrow> byte list \<Rightarrow> bool"

text \<open>\<^verbatim>\<open>new TextEncoder().encode(s)\<close>: UTF-8, for code units below 256.\<close>

definition TextEncoder_encode :: "string \<Rightarrow> byte list" where
  "TextEncoder_encode s =
     concat (map (\<lambda>c. let n = (of_char c :: nat)
                      in if n < 128 then [of_nat n]
                         else [of_nat (192 + n div 64), of_nat (128 + n mod 64)]) s)"

subsection \<open>Strings and numbers\<close>

text \<open>\<^verbatim>\<open>s.split(sep)\<close> for a one-character separator: the pieces between the
  occurrences of the separator, so always at least one piece.\<close>

fun split :: "char \<Rightarrow> string \<Rightarrow> string list" where
  "split sep [] = [[]]"
| "split sep (c # cs) =
     (if c = sep then [] # split sep cs
      else (case split sep cs of
              [] \<Rightarrow> [[c]]
            | p # ps \<Rightarrow> (c # p) # ps))"

text \<open>\<^verbatim>\<open>v.split('|')\<close> on a runtime value: only a string has the method; calling it
  on anything else throws a \<^verbatim>\<open>TypeError\<close>.\<close>

fun js_split :: "jsval \<Rightarrow> char \<Rightarrow> exn + string list" where
  "js_split (JStr s) sep = Inr (split sep s)"
| "js_split v sep = Inl (TypeError ''split is not a function'')"

text \<open>\<^verbatim>\<open>v.slice(2)\<close> on a runtime value: strings and arrays have the method.\<close>

fun js_slice2 :: "jsval \<Rightarrow> exn + jsval" where
  "js_slice2 (JStr s) = Inr (JStr (drop 2 s))"
| "js_slice2 (JArr xs) = Inr (JArr (drop 2 xs))"
| "js_slice2 v = Inl (TypeError ''slice is not a function'')"

definition digitChar :: "nat \<Rightarrow> char" where
  "digitChar d = ''0123456789abcdef'' ! d"

text \<open>\<^verbatim>\<open>n.toString()\<close> and \<^verbatim>\<open>n.toString(16)\<close> for a non-negative integer.\<close>

fun toString10 :: "nat \<Rightarrow> string" where
  "toString10 n = (if n < 10 then [digitChar n] else toString10 (n div 10) @ [digitChar (n mod 10)])"

fun toString16 :: "nat \<Rightarrow> string" where
  "toString16 n = (if n < 16 then [digitChar n] else toString16 (n div 16) @ [digitChar (n mod 16)])"

declare toString10.simps [simp del]
declare toString16.simps [simp del]

text \<open>\<^verbatim>\<open>Date.now().toString()\<close>: the decimal digits, after a minus sign for a
  negative reading.  A clock reading is an integer of magnitude below \<open>8.64e15\<close>, far
  from where JavaScript switches to exponent notation.\<close>

definition Number_toString :: "int \<Rightarrow> string" where
  "Number_toString i = (if i < 0 then CHR ''-'' # toString10 (nat (- i)) else toString10 (nat i))"

text \<open>\<^verbatim>\<open>s.padStart(2, '0')\<close>.\<close>

definition padStart2 :: "string \<Rightarrow> string" where
  "padStart2 s = replicate (2 - length s) CHR ''0'' @ s"

definition isWhiteSpace :: "char \<Rightarrow> bool" where
  "isWhiteSpace c = ((of_char c :: nat) \<in> {9, 10, 11, 12, 13, 32, 160})"

definition isDigit :: "char \<Rightarrow> bool" where
  "isDigit c = (48 \<le> (of_char c :: nat) \<and> (of_char c :: nat) \<le> 57)"

definition digitVal :: "char \<Rightarrow> nat" where
  "digitVal c = of_char c - 48"

text \<open>\<^verbatim>\<open>parseInt(s, 10)\<close>: leading white space is skipped, one sign is read, then
  the longest run of decimal digits; without a digit the result is \<^verbatim>\<open>NaN\<close>
  (\<open>None\<close>).  JavaScript rounds a value beyond \<open>2^53\<close> to a double; such a value
  is further than any clock reading from both bounds the caller compares the age
  with, so the comparisons come out the same on the exact integer.\<close>

definition parseInt10 :: "string \<Rightarrow> int option" where
  "parseInt10 s =
     (let S = dropWhile isWhiteSpace s;
          neg = (case S of [] \<Rightarrow> False | c # cs \<Rightarrow> c = CHR ''-'');
          S' = (case S of [] \<Rightarrow> [] | c # cs \<Rightarrow> if c = CHR ''-'' \<or> c = CHR ''+'' then cs else S);
          Z = takeWhile isDigit S'
      in if Z = [] then None
         else Some ((if neg then - 1 else 1) * int (foldl (\<lambda>a c. 10 * a + digitVal c) 0 Z)))"

text \<open>Comparisons with a possibly-\<^verbatim>\<open>NaN\<close> left operand: false on \<^verbatim>\<open>NaN\<close>.\<close>

definition js_gt :: "int option \<Rightarrow> int \<Rightarrow> bool" where
  "js_gt a b = (case a of None \<Rightarrow> False | Some x \<Rightarrow> x > b)"

definition js_lt :: "int option \<Rightarrow> int \<Rightarrow> bool" where
  "js_lt a b = (case a of None \<Rightarrow> False | Some x \<Rightarrow> x < b)"

section \<open>The \<^verbatim>\<open>jose\<close> calls\<close>

text \<open>\<^verbatim>\<open>new jose.SignJWT(payload)\<close> holds a claims set and a protected header.\<close>

record SignJWT =
  jwt_payload :: "(string \<times> jsval) list"
  jwt_header :: jsval

definition new_SignJWT :: "(string \<times> jsval) list \<Rightarrow> SignJWT" where
  "new_SignJWT p = \<lparr>jwt_payload = p, jwt_header = JUndefined\<rparr>"

definition setProtectedHeader :: "jsval \<Rightarrow> SignJWT \<Rightarrow> SignJWT" where
  "setProtectedHeader h j = j\<lparr>jwt_header := h\<rparr>"

text \<open>\<^verbatim>\<open>epoch(date)\<close>: a clock reading in milliseconds as whole seconds.\<close>

definition epoch :: "int \<Rightarrow> int" where
  "epoch ms = ms div 1000"

text \<open>\<^verbatim>\<open>setExpirationTime('24h')\<close> at clock reading \<open>now\<close> (milliseconds): the
  \<^verbatim>\<open>exp\<close> claim becomes the current time in seconds plus the span.\<close>

definition secs_24h :: int where
  "secs_24h = 24 * 60 * 60"

definition setExpirationTime :: "int \<Rightarrow> int \<Rightarrow> SignJWT \<Rightarrow> SignJWT" where
  "setExpirationTime now span j =
     j\<lparr>jwt_payload := filter (\<lambda>kv. fst kv \<noteq> ''exp'') (jwt_payload j) @ [(''exp'', JNum (epoch now + span))]\<rparr>"

definition sign :: "env \<Rightarrow> byte list \<Rightarrow> SignJWT \<Rightarrow> string" where
  "sign env key j = jws_sign env key (jwt_header j) (JObj (jwt_payload j))"

definition HS256 :: jsval where
  "HS256 = JObj [(''alg'', JStr ''HS256'')]"

text \<open>Reading a claim of a claims set: \<^verbatim>\<open>undefined\<close> when the key is absent.\<close>

definition claimOf :: "(string \<times> jsval) list \<Rightarrow> string \<Rightarrow> jsval" where
  "claimOf kvs k = (case map_of kvs k of None \<Rightarrow> JUndefined | Some v \<Rightarrow> v)"

text \<open>The claims validation of \<^verbatim>\<open>jwtVerify\<close> called with no options: the payload must
  be an object; \<^verbatim>\<open>iat\<close>, \<^verbatim>\<open>nbf\<close> and \<^verbatim>\<open>exp\<close> must be numbers when present;
  \<^verbatim>\<open>nbf\<close> must not lie after the current second, and \<^verbatim>\<open>exp\<close> must lie after it.
  Each function says whether its claim passes.\<close>

fun check_iat :: "jsval \<Rightarrow> bool" where
  "check_iat JUndefined = True"
| "check_iat (JNum iat) = True"
| "check_iat v = False"

fun check_nbf :: "int \<Rightarrow> jsval \<Rightarrow> bool" where
  "check_nbf now JUndefined = True"
| "check_nbf now (JNum nbf) = (\<not> nbf > now)"
| "check_nbf now v = False"

fun check_exp :: "int \<Rightarrow> jsval \<Rightarrow> bool" where
  "check_exp now JUndefined = True"
| "check_exp now (JNum exp) = (\<not> exp \<le> now)"
| "check_exp now v = False"

definition validateClaims :: "int \<Rightarrow> jsval \<Rightarrow> exn + jsval" where
  "validateClaims now p =
     (case p of
        JObj kvs \<Rightarrow>
          if \<not> check_iat (claimOf kvs ''iat'') then Inl (Error ''iat claim must be a number'')
          else if \<not> check_nbf (epoch now) (claimOf kvs ''nbf'') then Inl (Error ''nbf claim check failed'')
          else if \<not> check_exp (epoch now) (claimOf kvs ''exp'') then Inl (Error ''exp claim check failed'')
          else Inr p
      | _ \<Rightarrow> Inl (Error ''JWT Claims Set must be a top-level JSON object''))"

text \<open>\<^verbatim>\<open>jose.jwtVerify(jwt, key)\<close> at clock reading \<open>now\<close>: a value that is not a
  string is rejected, a string goes through the signature check and then through the
  claims validation.\<close>

definition jwtVerify :: "env \<Rightarrow> int \<Rightarrow> jsval \<Rightarrow> byte list \<Rightarrow> exn + jsval" where
  "jwtVerify env now jwt key =
     (case jwt of
        JStr s \<Rightarrow> (case jws_open env key s of
                     Inl e \<Rightarrow> Inl e
                   | Inr p \<Rightarrow> validateClaims now p)
      | _ \<Rightarrow> Inl (Error ''Compact JWS must be a string or Uint8Array''))"

section \<open>\<^verbatim>\<open>src/lib/auth.ts\<close>\<close>

definition secret :: "env \<Rightarrow> byte list" where
  "secret env = TextEncoder_encode (JWT_SECRET env)"

definition NONCE_EXPIRY_MS :: int where
  "NONCE_EXPIRY_MS = 5 * 60 * 1000"

text \<open>\<^verbatim>\<open>createToken(address)\<close> at clock reading \<open>now\<close>.  The claims set is built from
  \<^verbatim>\<open>{ address }\<close> by \<^verbatim>\<open>setExpirationTime('24h')\<close> alone.\<close>

definition tokenClaims :: "int \<Rightarrow> jsval \<Rightarrow> SignJWT" where
  "tokenClaims now address =
     setExpirationTime now secs_24h (setProtectedHeader HS256 (new_SignJWT [(''address'', address)]))"

definition createToken :: "env \<Rightarrow> int \<Rightarrow> jsval \<Rightarrow> string" where
  "createToken env now address = sign env (secret env) (tokenClaims now address)"

text \<open>\<^verbatim>\<open>verifyToken(token)\<close>: \<open>JNull\<close> is the \<^verbatim>\<open>null\<close> return; the
  \<^verbatim>\<open>try\<close>/\<^verbatim>\<open>catch\<close> turns every exception of \<^verbatim>\<open>jwtVerify\<close> into it.\<close>

definition verifyToken :: "env \<Rightarrow> int \<Rightarrow> jsval \<Rightarrow> exn + jsval" where
  "verifyToken env now token =
     (if \<not> truthy token then Inr JNull
      else (case jwtVerify env now token (secret env) of
              Inr payload \<Rightarrow> Inr payload
            | Inl error \<Rightarrow> Inr JNull))"

text \<open>\<^verbatim>\<open>createNonce()\<close> at clock reading \<open>now\<close>, with \<open>randomBytes\<close> the contents of
  the 16-byte array after \<^verbatim>\<open>crypto.getRandomValues\<close>.\<close>

definition randomHex :: "byte list \<Rightarrow> string" where
  "randomHex randomBytes = concat (map (\<lambda>b. padStart2 (toString16 (unat b))) randomBytes)"

definition noncePayload :: "int \<Rightarrow> byte list \<Rightarrow> string" where
  "noncePayload now randomBytes = Number_toString now @ ''|'' @ randomHex randomBytes"

definition nonceSignature :: "env \<Rightarrow> int \<Rightarrow> byte list \<Rightarrow> string" where
  "nonceSignature env now randomBytes =
     sign env (secret env)
       (setProtectedHeader HS256 (new_SignJWT [(''payload'', JStr (noncePayload now randomBytes))]))"

definition createNonce :: "env \<Rightarrow> int \<Rightarrow> byte list \<Rightarrow> string" where
  "createNonce env now randomBytes =
     noncePayload now randomBytes @ ''|'' @ nonceSignature env now randomBytes"

text \<open>\<^verbatim>\<open>validateNonce(nonce)\<close> at clock reading \<open>now\<close>.  \<open>validateNonce_try\<close> is the
  body of the outer \<^verbatim>\<open>try\<close>; the inner \<^verbatim>\<open>try\<close> covers \<^verbatim>\<open>jwtVerify\<close> and the
  comparison of the signed payload.\<close>

definition validateNonce_try :: "env \<Rightarrow> int \<Rightarrow> jsval \<Rightarrow> exn + bool" where
  "validateNonce_try env now nonce =
     (case js_split nonce CHR ''|'' of
        Inl e \<Rightarrow> Inl e
      | Inr parts \<Rightarrow>
          (case parts of
             [timestamp, random, signature] \<Rightarrow>
               (let payload = timestamp @ ''|'' @ random in
                case jwtVerify env now (JStr signature) (secret env) of
                  Inl error \<Rightarrow> Inr False
                | Inr verified \<Rightarrow>
                    (case getProp verified ''payload'' of
                       Inl error \<Rightarrow> Inr False
                     | Inr signedPayload \<Rightarrow>
                         if signedPayload \<noteq> JStr payload then Inr False
                         else (let nonceTimestamp = parseInt10 timestamp;
                                   age = map_option (\<lambda>t. now - t) nonceTimestamp
                               in if js_gt age NONCE_EXPIRY_MS then Inr False
                                  else if js_lt age (- 60000) then Inr False
                                  else Inr True)))
           | _ \<Rightarrow> Inr False))"

definition validateNonce :: "env \<Rightarrow> int \<Rightarrow> jsval \<Rightarrow> exn + bool" where
  "validateNonce env now nonce =
     (case validateNonce_try env now nonce of
        Inl error \<Rightarrow> Inr False
      | Inr b \<Rightarrow> Inr b)"

text \<open>\<^verbatim>\<open>nacl.sign.detached.verify(msg, sig, publicKey)\<close>: the two size checks throw.\<close>

definition nacl_sign_detached_verify :: "env \<Rightarrow> byte list \<Rightarrow> byte list \<Rightarrow> byte list \<Rightarrow> exn + bool" where
  "nacl_sign_detached_verify env msg sig publicKey =
     (if length sig \<noteq> 64 then Inl (Error ''bad signature size'')
      else if length publicKey \<noteq> 32 then Inl (Error ''bad public key size'')
      else Inr (crypto_sign_open env msg sig publicKey))"

text \<open>The argument \<^verbatim>\<open>Uint8Array.from(Buffer.from(v.f.slice(2), 'hex'))\<close> for the
  field \<open>f\<close> of the envelope \<open>v\<close>.\<close>

definition hexField :: "env \<Rightarrow> jsval \<Rightarrow> string \<Rightarrow> exn + byte list" where
  "hexField env v f =
     (case getProp v f of
        Inl e \<Rightarrow> Inl e
      | Inr x \<Rightarrow> (case js_slice2 x of
                    Inl e \<Rightarrow> Inl e
                  | Inr y \<Rightarrow> Buffer_from_hex env y))"

text \<open>\<^verbatim>\<open>verifyWalletSignature(message, signature, address)\<close>.
  \<open>verifyWalletSignature_try\<close> is the body of its \<^verbatim>\<open>try\<close>; the arguments of the
  \<^verbatim>\<open>nacl\<close> call are evaluated from left to right.  The address is not read.\<close>

definition verifyWalletSignature_try :: "env \<Rightarrow> string \<Rightarrow> jsval \<Rightarrow> jsval \<Rightarrow> exn + bool" where
  "verifyWalletSignature_try env message signature address =
     (case hexField env signature ''signature'' of
        Inl e \<Rightarrow> Inl e
      | Inr sigBytes \<Rightarrow>
          (case hexField env signature ''publicKey'' of
             Inl e \<Rightarrow> Inl e
           | Inr publicKeyBytes \<Rightarrow>
               (case nacl_sign_detached_verify env (TextEncoder_encode message) sigBytes publicKeyBytes of
                  Inl e \<Rightarrow> Inl e
                | Inr verified \<Rightarrow> if \<not> verified then Inr False else Inr True)))"

definition verifyWalletSignature :: "env \<Rightarrow> string \<Rightarrow> jsval \<Rightarrow> jsval \<Rightarrow> exn + bool" where
  "verifyWalletSignature env message signature address =
     (case verifyWalletSignature_try env message signature address of
        Inl error \<Rightarrow> Inr False
      | Inr b \<Rightarrow> Inr b)"

section \<open>The route handlers\<close>

text \<open>A \<^verbatim>\<open>NextResponse.json(body, { status })\<close>; the status defaults to 200.  A
  property whose value is \<^verbatim>\<open>undefined\<close> is left out when the body is serialised.\<close>

record response =
  status :: nat
  body :: "(string \<times> jsval) list"

definition NextResponse_json :: "(string \<times> jsval) list \<Rightarrow> nat \<Rightarrow> response" where
  "NextResponse_json b st = \<lparr>status = st, body = b\<rparr>"

definition AUTH_MESSAGE :: string where
  "AUTH_MESSAGE = ''Sign message to login to multiwallet. By signing this message, you agree to the Terms of Service and Privacy Policy of multiwallet at https://multiwallet.trade/tos''"

text \<open>\<^verbatim>\<open>POST\<close> of \<^verbatim>\<open>create-jwt/route.ts\<close>.  The request is what
  \<^verbatim>\<open>request.json()\<close> yields: \<open>None\<close> when the body is not JSON (the promise
  rejects), the parsed value otherwise.  Destructuring \<^verbatim>\<open>null\<close> throws; any other
  value is read property by property.  \<open>POST_try\<close> is the body of the \<^verbatim>\<open>try\<close>.\<close>

definition POST_try :: "env \<Rightarrow> int \<Rightarrow> jsval option \<Rightarrow> exn + response" where
  "POST_try env now request =
     (case request of
        None \<Rightarrow> Inl (SyntaxError ''Unexpected token'')
      | Some json \<Rightarrow>
          (case (getProp json ''address'', getProp json ''signature'', getProp json ''nonce'') of
             (Inr address, Inr signature, Inr nonce) \<Rightarrow>
               if \<not> truthy address \<or> \<not> truthy signature \<or> \<not> truthy nonce then
                 Inr (NextResponse_json
                   [(''error'', JStr ''Missing required fields: address, signature, and nonce are required'')] 400)
               else
                 (case (getProp signature ''signature'', getProp signature ''publicKey'') of
                    (Inr sig, Inr publicKey) \<Rightarrow>
                      if \<not> truthy sig \<or> \<not> truthy publicKey then
                        Inr (NextResponse_json
                          [(''error'', JStr ''Invalid signature format: must include signature and publicKey'')] 400)
                      else
                        (case validateNonce env now nonce of
                           Inl e \<Rightarrow> Inl e
                         | Inr nonceValid \<Rightarrow>
                             if \<not> nonceValid then
                               Inr (NextResponse_json
                                 [(''error'', JStr ''Invalid or expired nonce. Please request a new nonce and try again.'')] 401)
                             else
                               (case verifyWalletSignature env AUTH_MESSAGE signature address of
                                  Inl e \<Rightarrow> Inl e
                                | Inr signatureValid \<Rightarrow>
                                    if \<not> signatureValid then
                                      Inr (NextResponse_json
                                        [(''error'', JStr ''Invalid signature. Signature verification failed.'')] 401)
                                    else
                                      (let token = createToken env now address
                                       in Inr (NextResponse_json
                                            [(''token'', JStr token), (''address'', address)] 200))))
                  | _ \<Rightarrow> Inl (TypeError ''Cannot read properties''))
           | _ \<Rightarrow> Inl (TypeError ''Cannot destructure'')))"

definition POST :: "env \<Rightarrow> int \<Rightarrow> jsval option \<Rightarrow> response" where
  "POST env now request =
     (case POST_try env now request of
        Inl error \<Rightarrow> NextResponse_json [(''error'', JStr ''Authentication failed. Please try again.'')] 500
      | Inr r \<Rightarrow> r)"

text \<open>\<^verbatim>\<open>GET\<close> of \<^verbatim>\<open>check/route.ts\<close>.  The cookie store maps a cookie name to its
  value; \<^verbatim>\<open>cookieStore.get('authToken')?.value\<close> is \<^verbatim>\<open>undefined\<close> for an absent
  cookie.\<close>

definition cookieValue :: "(string \<rightharpoonup> string) \<Rightarrow> string \<Rightarrow> jsval" where
  "cookieValue cookieStore name = (case cookieStore name of None \<Rightarrow> JUndefined | Some v \<Rightarrow> JStr v)"

definition GET_try :: "env \<Rightarrow> int \<Rightarrow> (string \<rightharpoonup> string) \<Rightarrow> exn + response" where
  "GET_try env now cookieStore =
     (let token = cookieValue cookieStore ''authToken'' in
      if \<not> truthy token then Inr (NextResponse_json [(''authenticated'', JBool False)] 401)
      else
        (case verifyToken env now token of
           Inl e \<Rightarrow> Inl e
         | Inr verified \<Rightarrow>
             if \<not> truthy verified then Inr (NextResponse_json [(''authenticated'', JBool False)] 401)
             else
               (case getProp verified ''address'' of
                  Inl e \<Rightarrow> Inl e
                | Inr address \<Rightarrow>
                    Inr (NextResponse_json [(''authenticated'', JBool True), (''address'', address)] 200))))"

definition GET :: "env \<Rightarrow> int \<Rightarrow> (string \<rightharpoonup> string) \<Rightarrow> response" where
  "GET env now cookieStore =
     (case GET_try env now cookieStore of
        Inl error \<Rightarrow> NextResponse_json [(''authenticated'', JBool False)] 500
      | Inr r \<Rightarrow> r)"

section \<open>Notions of the specification\<close>

text \<open>What the specification expects of the token library on one claims set: verifying
  what was just signed under the server secret yields the claims again, and the
  compact serialisation is a non-empty string over the base64url alphabet and the
  dot.  The theorems that need the library to behave assume this for the claims set
  at hand, and for nothing else.\<close>

definition base64url_dot :: "char set" where
  "base64url_dot = set ''ABCDEFGHIJKLMNOPQRSTUVWXYZabcdefghijklmnopqrstuvwxyz0123456789-_.''"

definition jws_faithful :: "env \<Rightarrow> jsval \<Rightarrow> jsval \<Rightarrow> bool" where
  "jws_faithful env header claims =
     (jws_open env (secret env) (jws_sign env (secret env) header claims) = Inr claims
      \<and> jws_sign env (secret env) header claims \<noteq> []
      \<and> set (jws_sign env (secret env) header claims) \<subseteq> base64url_dot)"

text \<open>The claims set \<^verbatim>\<open>{ payload }\<close> that \<open>createNonce\<close> signs.\<close>

definition nonceClaims :: "int \<Rightarrow> byte list \<Rightarrow> jsval" where
  "nonceClaims now randomBytes = JObj [(''payload'', JStr (noncePayload now randomBytes))]"

text \<open>The rejection conditions of a nonce as the specification lists them.  The age
  is \<open>now - timestamp\<close>.  The signature part verifies as an authentic MAC over the
  string \<open>timestamp|random\<close> under the server secret when the library opens it
  under the UTF-8 bytes of \<^verbatim>\<open>JWT_SECRET\<close> and the signed claims set has that string
  as its \<^verbatim>\<open>payload\<close>; this does not depend on the clock.  \<open>nonceRejected\<close> is the
  disjunction of the four listed reasons, the last three read on the three parts.\<close>

definition nonceAge :: "int \<Rightarrow> string \<Rightarrow> int option" where
  "nonceAge now timestamp = map_option (\<lambda>t. now - t) (parseInt10 timestamp)"

definition macAuthentic :: "env \<Rightarrow> string \<Rightarrow> string \<Rightarrow> bool" where
  "macAuthentic env signature payload =
     (case jws_open env (TextEncoder_encode (JWT_SECRET env)) signature of
        Inl e \<Rightarrow> False
      | Inr claims \<Rightarrow> getProp claims ''payload'' = Inr (JStr payload))"

definition nonceRejected :: "env \<Rightarrow> int \<Rightarrow> jsval \<Rightarrow> bool" where
  "nonceRejected env now nonce =
     (case nonce of
        JStr s \<Rightarrow>
          (case split CHR ''|'' s of
             [timestamp, random, signature] \<Rightarrow>
               \<not> macAuthentic env signature (timestamp @ ''|'' @ random)
               \<or> js_gt (nonceAge now timestamp) (5 * 60 * 1000)
               \<or> js_lt (nonceAge now timestamp) (- (60 * 1000))
           | _ \<Rightarrow> True)
      | _ \<Rightarrow> True)"

text \<open>A reason the specification does not list: the signature part of a three-part
  nonce opens under the server secret, but the claims set it carries does not pass the
  library's claims validation at the current clock reading (it is not an object, its
  \<^verbatim>\<open>iat\<close>, \<^verbatim>\<open>nbf\<close> or \<^verbatim>\<open>exp\<close> is not a number, its \<^verbatim>\<open>nbf\<close> lies after the
  current second, or its \<^verbatim>\<open>exp\<close> does not lie after it).\<close>

definition claimsRefused :: "env \<Rightarrow> int \<Rightarrow> string \<Rightarrow> bool" where
  "claimsRefused env now signature =
     (case jws_open env (TextEncoder_encode (JWT_SECRET env)) signature of
        Inl e \<Rightarrow> False
      | Inr claims \<Rightarrow> (case validateClaims now claims of Inl e \<Rightarrow> True | Inr v \<Rightarrow> False))"

definition nonceClaimsRefused :: "env \<Rightarrow> int \<Rightarrow> jsval \<Rightarrow> bool" where
  "nonceClaimsRefused env now nonce =
     (case nonce of
        JStr s \<Rightarrow>
          (case split CHR ''|'' s of
             [timestamp, random, signature] \<Rightarrow> claimsRefused env now signature
           | _ \<Rightarrow> False)
      | _ \<Rightarrow> False)"

text \<open>A field of a request body, \<^verbatim>\<open>undefined\<close> when it cannot be read; the five
  fields the handler requires, each present with a truthy value; the two checks; and
  whether a response carries a token.\<close>

definition field :: "jsval \<Rightarrow> string \<Rightarrow> jsval" where
  "field v k = (case getProp v k of Inl e \<Rightarrow> JUndefined | Inr x \<Rightarrow> x)"

definition fieldsPresent :: "jsval \<Rightarrow> bool" where
  "fieldsPresent json =
     (truthy (field json ''address'') \<and> truthy (field json ''signature'') \<and> truthy (field json ''nonce'')
      \<and> truthy (field (field json ''signature'') ''signature'')
      \<and> truthy (field (field json ''signature'') ''publicKey''))"

definition checksPass :: "env \<Rightarrow> int \<Rightarrow> jsval \<Rightarrow> bool" where
  "checksPass env now json =
     (validateNonce env now (field json ''nonce'') = Inr True
      \<and> verifyWalletSignature env AUTH_MESSAGE (field json ''signature'') (field json ''address'') = Inr True)"

definition tokenIssued :: "response \<Rightarrow> bool" where
  "tokenIssued r = (map_of (body r) ''token'' \<noteq> None)"

section \<open>A test double of the library\<close>

text \<open>A small stand-in for the library, on which the theorems are run at concrete
  inputs.  It knows two tokens: the one for the nonce payload of clock reading
  \<open>1700000000000\<close> with the random bytes \<open>rnd0\<close>, and the one for the address
  \<^verbatim>\<open>0xabcd\<close> expiring at second \<open>1700086400\<close>; every other string fails
  verification.  Its hex decoder is strict (it throws on a malformed string), and its
  signature check accepts a signature whose first 32 bytes are the public key.\<close>

definition mock_jws :: "(jsval \<times> string) list" where
  "mock_jws =
     [(JObj [(''payload'', JStr ''1700000000000|0123456789abcdef0011223344556677'')],
       ''eyJhbGciOiJIUzI1NiJ9.bm9uY2U.c2lnMQ''),
      (JObj [(''address'', JStr ''0xabcd''), (''exp'', JNum 1700086400)],
       ''eyJhbGciOiJIUzI1NiJ9.dG9rZW4.c2lnMg'')]"

definition mock_sign :: "byte list \<Rightarrow> jsval \<Rightarrow> jsval \<Rightarrow> string" where
  "mock_sign key header claims =
     (case map_of mock_jws claims of Some t \<Rightarrow> t | None \<Rightarrow> ''eyJhbGciOiJIUzI1NiJ9.e30.c2lnMA'')"

definition mock_open :: "byte list \<Rightarrow> string \<Rightarrow> exn + jsval" where
  "mock_open key t =
     (case map_of (map (\<lambda>(claims, t). (t, claims)) mock_jws) t of
        Some claims \<Rightarrow> Inr claims
      | None \<Rightarrow> Inl (Error ''signature verification failed''))"

fun hexVal :: "char \<Rightarrow> nat option" where
  "hexVal c =
     (let n = (of_char c :: nat)
      in if 48 \<le> n \<and> n \<le> 57 then Some (n - 48)
         else if 97 \<le> n \<and> n \<le> 102 then Some (n - 87)
         else if 65 \<le> n \<and> n \<le> 70 then Some (n - 55)
         else None)"

fun decodeHex :: "string \<Rightarrow> byte list option" where
  "decodeHex [] = Some []"
| "decodeHex [c] = None"
| "decodeHex (a # b # cs) =
     (case (hexVal a, hexVal b, decodeHex cs) of
        (Some x, Some y, Some r) \<Rightarrow> Some (of_nat (16 * x + y) # r)
      | _ \<Rightarrow> None)"

definition mock_Buffer_from_hex :: "jsval \<Rightarrow> exn + byte list" where
  "mock_Buffer_from_hex v =
     (case v of
        JStr s \<Rightarrow> (case decodeHex s of
                     Some bs \<Rightarrow> Inr bs
                   | None \<Rightarrow> Inl (TypeError ''Invalid hex string''))
      | JArr xs \<Rightarrow> Inr (map (\<lambda>x. case x of JNum n \<Rightarrow> of_int n | _ \<Rightarrow> 0) xs)
      | _ \<Rightarrow> Inl (TypeError ''The first argument must be of type string or an instance of Array''))"

definition mock_crypto_sign_open :: "byte list \<Rightarrow> byte list \<Rightarrow> byte list \<Rightarrow> bool" where
  "mock_crypto_sign_open msg sig publicKey = (take 32 sig = publicKey)"

definition mock :: env where
  "mock = \<lparr>JWT_SECRET = ''test-secret'', jws_sign = mock_sign, jws_open = mock_open,
           Buffer_from_hex = mock_Buffer_from_hex, crypto_sign_open = mock_crypto_sign_open\<rparr>"

text \<open>A second stand-in whose hex decoder never throws: like the decoder of Node.js it
  stops at the first pair that is not two hex digits and returns the bytes decoded so
  far.\<close>

fun decodeHexPrefix :: "string \<Rightarrow> byte list" where
  "decodeHexPrefix (a # b # cs) =
     (case (hexVal a, hexVal b) of
        (Some x, Some y) \<Rightarrow> of_nat (16 * x + y) # decodeHexPrefix cs
      | _ \<Rightarrow> [])"
| "decodeHexPrefix cs = []"

definition lenient_Buffer_from_hex :: "jsval \<Rightarrow> exn + byte list" where
  "lenient_Buffer_from_hex v =
     (case v of
        JStr s \<Rightarrow> Inr (decodeHexPrefix s)
      | JArr xs \<Rightarrow> Inr (map (\<lambda>x. case x of JNum n \<Rightarrow> of_int n | _ \<Rightarrow> 0) xs)
      | _ \<Rightarrow> Inl (TypeError ''The first argument must be of type string or an instance of Array''))"

definition mock_lenient :: env where
  "mock_lenient = mock\<lparr>Buffer_from_hex := lenient_Buffer_from_hex\<rparr>"

text \<open>A third stand-in, which also knows a token carrying the nonce payload of
  \<open>nonce0\<close> together with an \<^verbatim>\<open>exp\<close> claim of second 1, as the library yields for
  a token signed with such claims under the server secret.\<close>

definition expiring_open :: "byte list \<Rightarrow> string \<Rightarrow> exn + jsval" where
  "expiring_open key t =
     (if t = ''eyJhbGciOiJIUzI1NiJ9.ZXhwMQ.c2lnMw''
      then Inr (JObj [(''payload'', JStr ''1700000000000|0123456789abcdef0011223344556677''),
                      (''exp'', JNum 1)])
      else mock_open key t)"

definition mock_expiring :: env where
  "mock_expiring = mock\<lparr>jws_open := expiring_open\<rparr>"

definition nonce_exp1 :: string where
  "nonce_exp1 = ''1700000000000|0123456789abcdef0011223344556677|eyJhbGciOiJIUzI1NiJ9.ZXhwMQ.c2lnMw''"

definition T0 :: int where
  "T0 = 1700000000000"

definition rnd0 :: "byte list" where
  "rnd0 = [1, 35, 69, 103, 137, 171, 205, 239, 0, 17, 34, 51, 68, 85, 102, 119]"

definition pk0 :: string where
  "pk0 = ''0x1111111111111111111111111111111111111111111111111111111111111111''"

definition sig0 :: string where
  "sig0 = ''0x11111111111111111111111111111111111111111111111111111111111111112222222222222222222222222222222222222222222222222222222222222222''"

definition envelope0 :: jsval where
  "envelope0 = JObj [(''signature'', JStr sig0), (''publicKey'', JStr pk0)]"

definition nonce0 :: string where
  "nonce0 = ''1700000000000|0123456789abcdef0011223344556677|eyJhbGciOiJIUzI1NiJ9.bm9uY2U.c2lnMQ''"

definition token0 :: string where
  "token0 = ''eyJhbGciOiJIUzI1NiJ9.dG9rZW4.c2lnMg''"

definition body0 :: "string \<Rightarrow> jsval" where
  "body0 nonce = JObj [(''address'', JStr ''0xabcd''), (''signature'', envelope0), (''nonce'', JStr nonce)]"

section \<open>Auxiliary lemmas\<close>

subsection \<open>Splitting and joining\<close>

lemma length_split: "length (split sep s) = Suc (count_list s sep)"
  by (induction s) (auto split: list.splits)

lemma split_pieces: "p \<in> set (split sep s) \<Longrightarrow> sep \<notin> set p"
  by (induction s arbitrary: p) (auto split: list.splits if_splits)

lemma split_join: "concat (map ((#) sep) (split sep s)) = sep # s"
  by (induction s) (auto split: list.splits)

lemma split_three:
  assumes "split sep s = [a, b, c]"
  shows "s = a @ sep # b @ sep # c" and "sep \<notin> set a" and "sep \<notin> set b" and "sep \<notin> set c"
proof -
  from split_join [of sep s] assms show "s = a @ sep # b @ sep # c" by simp
  from split_pieces [of _ sep s] assms show "sep \<notin> set a" "sep \<notin> set b" "sep \<notin> set c"
    by auto
qed

lemma split_no_sep: "sep \<notin> set a \<Longrightarrow> split sep a = [a]"
  by (induction a) auto

lemma split_append: "sep \<notin> set a \<Longrightarrow> split sep (a @ sep # rest) = a # split sep rest"
  by (induction a) (auto split: list.splits)

lemma split_three_unique:
  assumes "split sep (t @ sep # r @ sep # g) = [a, b, c]"
  shows "a = t \<and> b = r \<and> c = g"
proof -
  have "length (split sep (t @ sep # r @ sep # g)) = 3" using assms by simp
  then have "count_list t sep + count_list r sep + count_list g sep = 0"
    by (simp add: length_split)
  then have "sep \<notin> set t" and "sep \<notin> set r" and "sep \<notin> set g"
    by (simp_all add: count_list_0_iff)
  then have "split sep (t @ sep # r @ sep # g) = [t, r, g]"
    by (simp add: split_append split_no_sep)
  with assms show ?thesis by simp
qed


subsection \<open>Digits\<close>

lemma of_char_digitChar:
  assumes "d < 16"
  shows "(of_char (digitChar d) :: nat) = (if d < 10 then 48 + d else 87 + d)"
proof -
  from assms have "d \<in> {0, 1, 2, 3, 4, 5, 6, 7, 8, 9, 10, 11, 12, 13, 14, 15}"
    unfolding insert_iff empty_iff by arith
  then show ?thesis by (elim insertE emptyE) (simp_all add: digitChar_def)
qed

lemma isDigit_digitChar: "d < 10 \<Longrightarrow> isDigit (digitChar d)"
  by (simp add: isDigit_def of_char_digitChar)

lemma digitVal_digitChar: "d < 10 \<Longrightarrow> digitVal (digitChar d) = d"
  by (simp add: digitVal_def of_char_digitChar)

lemma digitChar_not_pipe: "d < 16 \<Longrightarrow> digitChar d \<noteq> CHR ''|''"
proof
  assume "d < 16" and "digitChar d = CHR ''|''"
  then have "(of_char (digitChar d) :: nat) = 124" by simp
  with \<open>d < 16\<close> show False by (simp add: of_char_digitChar split: if_splits)
qed

lemma toString10_digits: "c \<in> set (toString10 n) \<Longrightarrow> isDigit c"
proof (induction n arbitrary: c rule: toString10.induct)
  case (1 n)
  show ?case
  proof (cases "n < 10")
    case True
    with "1.prems" show ?thesis by (simp add: toString10.simps [of n] isDigit_digitChar)
  next
    case False
    with "1.prems" "1.IH" show ?thesis
      by (auto simp add: toString10.simps [of n] isDigit_digitChar)
  qed
qed

lemma toString10_not_Nil: "toString10 n \<noteq> []"
  by (simp add: toString10.simps [of n])

lemma toString10_value: "foldl (\<lambda>a c. 10 * a + digitVal c) 0 (toString10 n) = n"
proof (induction n rule: toString10.induct)
  case (1 n)
  show ?case
  proof (cases "n < 10")
    case True
    then show ?thesis by (simp add: toString10.simps [of n] digitVal_digitChar)
  next
    case False
    with "1.IH" show ?thesis
      by (simp add: toString10.simps [of n] digitVal_digitChar)
  qed
qed

lemma isDigit_not_space: "isDigit c \<Longrightarrow> \<not> isWhiteSpace c"
  by (auto simp: isDigit_def isWhiteSpace_def)

lemma isDigit_not_sign: "isDigit c \<Longrightarrow> c \<noteq> CHR ''-'' \<and> c \<noteq> CHR ''+'' \<and> c \<noteq> CHR ''|''"
  by (auto simp: isDigit_def)

lemma parseInt10_digits:
  assumes "ds \<noteq> []" and "\<forall>c \<in> set ds. isDigit c"
  shows "parseInt10 ds = Some (int (foldl (\<lambda>a c. 10 * a + digitVal c) 0 ds))"
    and "parseInt10 (CHR ''-'' # ds) = Some (- int (foldl (\<lambda>a c. 10 * a + digitVal c) 0 ds))"
proof -
  obtain d ds' where ds: "ds = d # ds'" using assms(1) by (cases ds) auto
  have d: "isDigit d" using assms(2) ds by simp
  have tw: "takeWhile isDigit ds = ds" using assms(2) by (simp add: takeWhile_eq_all_conv)
  have dw: "dropWhile isWhiteSpace ds = ds"
    using d ds by (simp add: isDigit_not_space)
  have neg: "(case ds of [] \<Rightarrow> False | c # cs \<Rightarrow> c = CHR ''-'') = False"
    using ds isDigit_not_sign [OF d] by simp
  have S': "(case ds of [] \<Rightarrow> [] | c # cs \<Rightarrow> if c = CHR ''-'' \<or> c = CHR ''+'' then cs else ds) = ds"
    using ds isDigit_not_sign [OF d] by simp
  show "parseInt10 ds = Some (int (foldl (\<lambda>a c. 10 * a + digitVal c) 0 ds))"
    unfolding parseInt10_def dw Let_def neg S' tw using assms(1) by simp
  have dw': "dropWhile isWhiteSpace (CHR ''-'' # ds) = CHR ''-'' # ds"
    by (simp add: isWhiteSpace_def)
  show "parseInt10 (CHR ''-'' # ds) = Some (- int (foldl (\<lambda>a c. 10 * a + digitVal c) 0 ds))"
    unfolding parseInt10_def dw' by (simp add: Let_def tw assms(1))
qed

lemma parseInt10_toString: "parseInt10 (Number_toString i) = Some i"
  using parseInt10_digits [of "toString10 (nat \<bar>i\<bar>)"] toString10_digits toString10_not_Nil
  by (auto simp add: Number_toString_def toString10_value)

lemma Number_toString_no_pipe: "CHR ''|'' \<notin> set (Number_toString i)"
  using isDigit_not_sign toString10_digits by (auto simp add: Number_toString_def)

lemma toString16_no_pipe: "CHR ''|'' \<notin> set (toString16 n)"
proof (induction n rule: toString16.induct)
  case (1 n)
  show ?case
  proof (cases "n < 16")
    case True
    then show ?thesis using digitChar_not_pipe [of n] by (auto simp add: toString16.simps [of n])
  next
    case False
    with "1.IH" show ?thesis
      using digitChar_not_pipe [of "n mod 16"] by (auto simp add: toString16.simps [of n])
  qed
qed

lemma randomHex_no_pipe: "CHR ''|'' \<notin> set (randomHex bs)"
  by (auto simp add: randomHex_def padStart2_def toString16_no_pipe)


subsection \<open>Verification of tokens\<close>

lemma validateClaims_Inr: "validateClaims now p = Inr v \<Longrightarrow> v = p"
  by (auto simp add: validateClaims_def split: jsval.splits if_splits)

lemma jwtVerify_Inr: "jwtVerify env now (JStr s) key = Inr v \<Longrightarrow> jws_open env key s = Inr v"
  by (auto simp add: jwtVerify_def split: sum.splits dest: validateClaims_Inr)




lemma jwtVerify_valid:
  "jws_open env key s = Inr (JObj kvs) \<Longrightarrow> check_iat (claimOf kvs ''iat'')
     \<Longrightarrow> check_nbf (epoch now) (claimOf kvs ''nbf'') \<Longrightarrow> check_exp (epoch now) (claimOf kvs ''exp'')
     \<Longrightarrow> jwtVerify env now (JStr s) key = Inr (JObj kvs)"
  by (simp add: jwtVerify_def validateClaims_def)

lemma createToken_unfold:
  "createToken env now address =
     jws_sign env (secret env) HS256 (JObj [(''address'', address), (''exp'', JNum (epoch now + secs_24h))])"
  by (simp add: createToken_def sign_def tokenClaims_def setExpirationTime_def
      setProtectedHeader_def new_SignJWT_def)

lemma verifyToken_createToken:
  assumes "jws_faithful env HS256 (JObj [(''address'', address), (''exp'', JNum (epoch now + secs_24h))])"
    and "epoch now' < epoch now + secs_24h"
  shows "verifyToken env now' (JStr (createToken env now address)) =
           Inr (JObj [(''address'', address), (''exp'', JNum (epoch now + secs_24h))])"
  using assms
  by (simp add: createToken_unfold jws_faithful_def verifyToken_def jwtVerify_def
      validateClaims_def claimOf_def)





subsection \<open>Validation of nonces\<close>

lemma validateNonce_bool: "validateNonce env now nonce = Inr True \<or> validateNonce env now nonce = Inr False"
  by (cases "validateNonce_try env now nonce") (auto simp add: validateNonce_def)

lemma validateNonce_not_string: "\<forall>s. nonce \<noteq> JStr s \<Longrightarrow> validateNonce env now nonce = Inr False"
  by (cases nonce) (simp_all add: validateNonce_def validateNonce_try_def)

lemma validateNonce_not_three:
  "\<forall>t r g. split CHR ''|'' s \<noteq> [t, r, g] \<Longrightarrow> validateNonce env now (JStr s) = Inr False"
  by (auto simp add: validateNonce_def validateNonce_try_def split: list.splits)

lemma validateNonce_three:
  assumes "split CHR ''|'' s = [t, r, g]"
  shows "validateNonce env now (JStr s) =
     Inr ((case jwtVerify env now (JStr g) (secret env) of
             Inl e \<Rightarrow> False
           | Inr v \<Rightarrow> getProp v ''payload'' = Inr (JStr (t @ ''|'' @ r)))
          \<and> \<not> js_gt (map_option (\<lambda>x. now - x) (parseInt10 t)) 300000
          \<and> \<not> js_lt (map_option (\<lambda>x. now - x) (parseInt10 t)) (- 60000))"
  by (auto simp add: assms validateNonce_def validateNonce_try_def NONCE_EXPIRY_MS_def Let_def
      split: sum.splits)

lemma validateNonce_True_parts:
  assumes "validateNonce env now (JStr s) = Inr True"
  shows "\<exists>t r g. split CHR ''|'' s = [t, r, g]"
  using assms validateNonce_not_three [of s env now] by auto

lemma split_createNonce:
  assumes "CHR ''|'' \<notin> set (nonceSignature env now rnd)"
  shows "split CHR ''|'' (createNonce env now rnd) =
           [Number_toString now, randomHex rnd, nonceSignature env now rnd]"
  using assms
  by (simp add: createNonce_def noncePayload_def split_append split_no_sep
      Number_toString_no_pipe randomHex_no_pipe)

lemma pipe_not_base64url: "CHR ''|'' \<notin> base64url_dot"
  by (simp add: base64url_dot_def)

lemma nonceSignature_eq:
  "nonceSignature env now rnd = jws_sign env (secret env) HS256 (nonceClaims now rnd)"
  by (simp add: nonceSignature_def sign_def setProtectedHeader_def new_SignJWT_def nonceClaims_def)

lemma jwtVerify_nonceSignature:
  assumes "jws_faithful env HS256 (nonceClaims T rnd)"
  shows "jwtVerify env now (JStr (nonceSignature env T rnd)) (secret env) = Inr (nonceClaims T rnd)"
  using assms
  by (simp add: jws_faithful_def nonceSignature_eq jwtVerify_def)
     (simp add: nonceClaims_def validateClaims_def claimOf_def)

lemma validateNonce_created:
  assumes "jws_faithful env HS256 (nonceClaims T rnd)"
  shows "validateNonce env (T + d) (JStr (createNonce env T rnd)) = Inr (- 60000 \<le> d \<and> d \<le> 300000)"
proof -
  have "CHR ''|'' \<notin> set (nonceSignature env T rnd)"
    using assms pipe_not_base64url by (auto simp add: jws_faithful_def nonceSignature_eq)
  then have sp: "split CHR ''|'' (createNonce env T rnd) =
           [Number_toString T, randomHex rnd, nonceSignature env T rnd]"
    by (rule split_createNonce)
  show ?thesis
    unfolding validateNonce_three [OF sp]
    by (auto simp add: jwtVerify_nonceSignature [OF assms]
        nonceClaims_def noncePayload_def parseInt10_toString js_gt_def js_lt_def)
qed

lemma validateNonce_expired:
  assumes "d > 300000"
  shows "validateNonce env (T + d) (JStr (createNonce env T rnd)) = Inr False"
proof (cases "\<exists>t r g. split CHR ''|'' (createNonce env T rnd) = [t, r, g]")
  case True
  then obtain t r g where sp: "split CHR ''|'' (createNonce env T rnd) = [t, r, g]" by blast
  from split_three(1,2) [OF sp] have "createNonce env T rnd = t @ CHR ''|'' # r @ CHR ''|'' # g"
    and "CHR ''|'' \<notin> set t" by auto
  then have "split CHR ''|'' (createNonce env T rnd) = t # split CHR ''|'' (r @ CHR ''|'' # g)"
    by (simp add: split_append)
  moreover have "split CHR ''|'' (createNonce env T rnd) =
      Number_toString T # split CHR ''|'' (randomHex rnd @ CHR ''|'' # nonceSignature env T rnd)"
    by (simp add: createNonce_def noncePayload_def split_append Number_toString_no_pipe)
  ultimately have t: "t = Number_toString T" using sp by simp
  show ?thesis
    unfolding validateNonce_three [OF sp] using assms
    by (simp add: t parseInt10_toString js_gt_def)
next
  case False
  then show ?thesis
    by (simp add: validateNonce_not_three)
qed

lemma validateNonce_True:
  assumes "validateNonce env now (JStr (t @ ''|'' @ r @ ''|'' @ g)) = Inr True"
  shows "\<exists>v. jws_open env (secret env) g = Inr v \<and> getProp v ''payload'' = Inr (JStr (t @ ''|'' @ r))"
proof -
  from validateNonce_True_parts [OF assms]
  obtain a b c where sp: "split CHR ''|'' (t @ ''|'' @ r @ ''|'' @ g) = [a, b, c]" by blast
  then have "a = t \<and> b = r \<and> c = g" using split_three_unique [of "CHR ''|''" t r g a b c] by simp
  with sp have "split CHR ''|'' (t @ ''|'' @ r @ ''|'' @ g) = [t, r, g]" by simp
  from assms [unfolded validateNonce_three [OF this]] show ?thesis
    by (auto split: sum.splits dest: jwtVerify_Inr)
qed

lemma tamper_general:
  assumes valid: "validateNonce env now (JStr (t @ ''|'' @ r @ ''|'' @ g)) = Inr True"
    and diff: "t' \<noteq> t \<or> r' \<noteq> r"
  shows "validateNonce env now' (JStr (t' @ ''|'' @ r' @ ''|'' @ g)) = Inr False"
proof (rule ccontr)
  assume "validateNonce env now' (JStr (t' @ ''|'' @ r' @ ''|'' @ g)) \<noteq> Inr False"
  then have "validateNonce env now' (JStr (t' @ ''|'' @ r' @ ''|'' @ g)) = Inr True"
    using validateNonce_bool [of env now' "JStr (t' @ ''|'' @ r' @ ''|'' @ g)"] by simp
  from validateNonce_True [OF this] validateNonce_True [OF valid]
  have "t' @ ''|'' @ r' = t @ ''|'' @ r" by auto
  moreover from validateNonce_True [OF valid] valid
  have "CHR ''|'' \<notin> set t"
  proof -
    from validateNonce_True_parts [OF valid]
    have "length (split CHR ''|'' (t @ ''|'' @ r @ ''|'' @ g)) = 3" by auto
    then show ?thesis by (simp add: length_split count_list_0_iff)
  qed
  moreover have "CHR ''|'' \<notin> set t'"
  proof -
    from validateNonce_True_parts [OF \<open>validateNonce env now' (JStr (t' @ ''|'' @ r' @ ''|'' @ g)) = Inr True\<close>]
    have "length (split CHR ''|'' (t' @ ''|'' @ r' @ ''|'' @ g)) = 3" by auto
    then show ?thesis by (simp add: length_split count_list_0_iff)
  qed
  ultimately have "t' # split CHR ''|'' r' = t # split CHR ''|'' r" and "t' @ ''|'' @ r' = t @ ''|'' @ r"
    using split_append [of "CHR ''|''" t' r'] split_append [of "CHR ''|''" t r] by simp_all
  then have "t' = t \<and> r' = r" by simp
  with diff show False by simp
qed


subsection \<open>The signature verifier\<close>

lemma verifyWalletSignature_total: "\<exists>b. verifyWalletSignature env message signature address = Inr b"
  by (cases "verifyWalletSignature_try env message signature address")
     (auto simp add: verifyWalletSignature_def)

lemma verifyWalletSignature_throw:
  "verifyWalletSignature_try env message signature address = Inl e
     \<Longrightarrow> verifyWalletSignature env message signature address = Inr False"
  by (simp add: verifyWalletSignature_def)

lemma verifyWalletSignature_try_throws:
  assumes "(\<exists>e. hexField env signature ''signature'' = Inl e)
         \<or> (\<exists>e. hexField env signature ''publicKey'' = Inl e)
         \<or> (\<exists>sigBytes publicKeyBytes. hexField env signature ''signature'' = Inr sigBytes
               \<and> hexField env signature ''publicKey'' = Inr publicKeyBytes
               \<and> (length sigBytes \<noteq> 64 \<or> length publicKeyBytes \<noteq> 32))"
  shows "\<exists>e. verifyWalletSignature_try env message signature address = Inl e"
  using assms
  by (auto simp add: verifyWalletSignature_try_def nacl_sign_detached_verify_def split: sum.splits)


subsection \<open>The token endpoint\<close>

lemma getProp_field: "v \<noteq> JNull \<Longrightarrow> v \<noteq> JUndefined \<Longrightarrow> getProp v k = Inr (field v k)"
  by (cases v) (simp_all add: field_def)

lemma truthy_defined: "truthy v \<Longrightarrow> v \<noteq> JNull \<and> v \<noteq> JUndefined"
  by (cases v) simp_all

lemma POST_unparsed: "POST env now None = NextResponse_json [(''error'', JStr ''Authentication failed. Please try again.'')] 500"
  by (simp add: POST_def POST_try_def)

lemma POST_null:
  "json = JNull \<or> json = JUndefined \<Longrightarrow>
   POST env now (Some json) = NextResponse_json [(''error'', JStr ''Authentication failed. Please try again.'')] 500"
  by (auto simp add: POST_def POST_try_def)

lemma POST_missing:
  assumes "json \<noteq> JNull" and "json \<noteq> JUndefined" and "\<not> fieldsPresent json"
  shows "status (POST env now (Some json)) = 400 \<and> \<not> tokenIssued (POST env now (Some json))"
proof (cases "truthy (field json ''address'') \<and> truthy (field json ''signature'') \<and> truthy (field json ''nonce'')")
  case True
  then have sg: "field json ''signature'' \<noteq> JNull" "field json ''signature'' \<noteq> JUndefined"
    using truthy_defined by blast+
  from True assms(3) have "\<not> truthy (field (field json ''signature'') ''signature'')
      \<or> \<not> truthy (field (field json ''signature'') ''publicKey'')"
    by (simp add: fieldsPresent_def)
  with True show ?thesis
    by (simp add: POST_def POST_try_def getProp_field [OF assms(1,2)] getProp_field [OF sg]
        NextResponse_json_def tokenIssued_def)
next
  case False
  then show ?thesis
    by (simp add: POST_def POST_try_def getProp_field [OF assms(1,2)]
        NextResponse_json_def tokenIssued_def)
qed

lemma POST_present:
  assumes "fieldsPresent json"
  shows "POST env now (Some json) =
     (if validateNonce env now (field json ''nonce'') \<noteq> Inr True then
        NextResponse_json [(''error'', JStr ''Invalid or expired nonce. Please request a new nonce and try again.'')] 401
      else if verifyWalletSignature env AUTH_MESSAGE (field json ''signature'') (field json ''address'') \<noteq> Inr True then
        NextResponse_json [(''error'', JStr ''Invalid signature. Signature verification failed.'')] 401
      else NextResponse_json [(''token'', JStr (createToken env now (field json ''address''))),
             (''address'', field json ''address'')] 200)"
proof -
  from assms have tr: "truthy (field json ''address'')" "truthy (field json ''signature'')"
      "truthy (field json ''nonce'')" "truthy (field (field json ''signature'') ''signature'')"
      "truthy (field (field json ''signature'') ''publicKey'')"
    by (simp_all add: fieldsPresent_def)
  have js: "json \<noteq> JNull" "json \<noteq> JUndefined"
    using tr(1) by (auto simp add: field_def)
  have sg: "field json ''signature'' \<noteq> JNull" "field json ''signature'' \<noteq> JUndefined"
    using tr(2) truthy_defined by blast+
  obtain b where b: "validateNonce env now (field json ''nonce'') = Inr b"
    using validateNonce_bool [of env now "field json ''nonce''"] by blast
  obtain b' where b': "verifyWalletSignature env AUTH_MESSAGE (field json ''signature'') (field json ''address'') = Inr b'"
    using verifyWalletSignature_total by blast
  show ?thesis
    by (simp add: POST_def POST_try_def getProp_field [OF js] getProp_field [OF sg] tr b b')
qed


subsection \<open>The test double\<close>

lemma Number_toString_T0: "Number_toString T0 = ''1700000000000''"
  by (simp add: T0_def Number_toString_def toString10.simps digitChar_def)

lemma randomHex_rnd0: "randomHex rnd0 = ''0123456789abcdef0011223344556677''"
  by (simp add: randomHex_def rnd0_def padStart2_def toString16.simps digitChar_def)

lemma noncePayload_T0: "noncePayload T0 rnd0 = ''1700000000000|0123456789abcdef0011223344556677''"
  by (simp add: noncePayload_def Number_toString_T0 randomHex_rnd0)

lemma mock_faithful_nonce: "jws_faithful mock HS256 (nonceClaims T0 rnd0)"
  by (simp add: jws_faithful_def nonceClaims_def noncePayload_T0 mock_def mock_sign_def mock_open_def
      mock_jws_def base64url_dot_def)

lemma mock_faithful_token:
  "jws_faithful mock HS256 (JObj [(''address'', JStr ''0xabcd''), (''exp'', JNum (epoch T0 + secs_24h))])"
  by (simp add: jws_faithful_def T0_def epoch_def secs_24h_def mock_def mock_sign_def mock_open_def
      mock_jws_def base64url_dot_def)

lemma mock_verify0: "verifyWalletSignature mock AUTH_MESSAGE envelope0 (JStr ''0xabcd'') = Inr True"
  by (simp add: verifyWalletSignature_def verifyWalletSignature_try_def hexField_def envelope0_def
      sig0_def pk0_def mock_def mock_Buffer_from_hex_def nacl_sign_detached_verify_def
      mock_crypto_sign_open_def)

lemma createNonce_mock: "createNonce mock T0 rnd0 = nonce0"
  by (simp add: createNonce_def noncePayload_T0 nonceSignature_eq nonceClaims_def nonce0_def
      mock_def mock_sign_def mock_jws_def)

lemma validateNonce_mock: "validateNonce mock (T0 + d) (JStr nonce0) = Inr (- 60000 \<le> d \<and> d \<le> 300000)"
  using validateNonce_created [OF mock_faithful_nonce, of d] by (simp add: createNonce_mock)

lemma validateNonce_mock_fresh: "validateNonce mock T0 (JStr nonce0) = Inr True"
  using validateNonce_mock [of 0] by simp

lemma createToken_mock: "createToken mock T0 (JStr ''0xabcd'') = token0"
  by (simp add: createToken_unfold T0_def epoch_def secs_24h_def token0_def
      mock_def mock_sign_def mock_jws_def)

lemma fieldsPresent_body0: "fieldsPresent (body0 nonce)"
  if "nonce \<noteq> []"
  using that by (simp add: fieldsPresent_def field_def body0_def envelope0_def sig0_def pk0_def)

lemma field_body0:
  "field (body0 nonce) ''nonce'' = JStr nonce"
  "field (body0 nonce) ''signature'' = envelope0"
  "field (body0 nonce) ''address'' = JStr ''0xabcd''"
  by (simp_all add: field_def body0_def)

lemma validateNonce_lenient_fresh: "validateNonce mock_lenient T0 (JStr nonce0) = Inr True"
proof -
  have f: "jws_faithful mock_lenient HS256 (nonceClaims T0 rnd0)"
    by (simp add: jws_faithful_def nonceClaims_def noncePayload_T0 mock_lenient_def mock_def
        mock_sign_def mock_open_def mock_jws_def base64url_dot_def)
  have "createNonce mock_lenient T0 rnd0 = nonce0"
    by (simp add: createNonce_def noncePayload_T0 nonceSignature_eq nonceClaims_def nonce0_def
        mock_lenient_def mock_def mock_sign_def mock_jws_def)
  with validateNonce_created [OF f, of 0] show ?thesis by simp
qed

lemma split_nonce_exp1:
  "split CHR ''|'' nonce_exp1 =
     [''1700000000000'', ''0123456789abcdef0011223344556677'', ''eyJhbGciOiJIUzI1NiJ9.ZXhwMQ.c2lnMw'']"
  by (simp add: nonce_exp1_def)

lemma parseInt10_T0: "parseInt10 ''1700000000000'' = Some T0"
  using parseInt10_toString [of T0] by (simp add: Number_toString_T0)

section \<open>The claims\<close>

text \<open>
  C1.  As stated the claim fails on a body that is JSON \<^verbatim>\<open>null\<close> (or is not JSON):
  all fields are missing and the answer is 500.  What holds for every library, clock
  reading and request: a body that does not parse, or parses to \<^verbatim>\<open>null\<close>, gives
  500; any other body in which one of \<^verbatim>\<open>address\<close>, \<^verbatim>\<open>signature\<close>, \<^verbatim>\<open>nonce\<close>,
  \<^verbatim>\<open>signature.signature\<close>, \<^verbatim>\<open>signature.publicKey\<close> is absent or falsy
  (\<^verbatim>\<open>null\<close>, \<^verbatim>\<open>false\<close>, \<^verbatim>\<open>0\<close>, the empty string) gives 400; with all five present
  and truthy, the answer is 200 with the token for the address and the address if
  \<open>validateNonce\<close> and \<open>verifyWalletSignature\<close> both return true, and 401
  otherwise.  A token is issued exactly with status 200, and status 200 is given
  exactly when the five fields are present and both checks return true.
\<close>

theorem create_jwt_outcome:
  "(case request of
      None \<Rightarrow> status (POST env now request) = 500
    | Some json \<Rightarrow>
        if json = JNull \<or> json = JUndefined then status (POST env now request) = 500
        else if \<not> fieldsPresent json then status (POST env now request) = 400
        else if checksPass env now json then
          POST env now request =
            NextResponse_json [(''token'', JStr (createToken env now (field json ''address''))),
              (''address'', field json ''address'')] 200
        else status (POST env now request) = 401)
   \<and> (status (POST env now request) = 200 \<longleftrightarrow>
        (\<exists>json. request = Some json \<and> fieldsPresent json \<and> checksPass env now json))
   \<and> (tokenIssued (POST env now request) \<longleftrightarrow> status (POST env now request) = 200)"
proof (cases request)
  case None
  then show ?thesis by (simp add: POST_unparsed NextResponse_json_def tokenIssued_def)
next
  case (Some json)
  show ?thesis
  proof (cases "json = JNull \<or> json = JUndefined")
    case True
    then have "\<not> fieldsPresent json" by (auto simp add: fieldsPresent_def field_def)
    with True Some show ?thesis
      by (simp add: POST_null NextResponse_json_def tokenIssued_def)
  next
    case False
    then have js: "json \<noteq> JNull" "json \<noteq> JUndefined" by simp_all
    show ?thesis
    proof (cases "fieldsPresent json")
      case True
      show ?thesis using js
        by (simp add: Some True POST_present [OF True] checksPass_def NextResponse_json_def
            tokenIssued_def)
    next
      case no: False
      with POST_missing [OF js no, of env now] js show ?thesis
        by (simp add: Some)
    qed
  qed
qed

text \<open>On the test double: a request with a fresh nonce and a valid signature gets the
  token; the same request after the nonce has expired gets 401; a request without a
  nonce gets 400.\<close>

theorem create_jwt_outcome_witness:
  "POST mock T0 (Some (body0 nonce0)) =
     \<lparr>status = 200, body = [(''token'', JStr token0), (''address'', JStr ''0xabcd'')]\<rparr>
   \<and> status (POST mock (T0 + 300001) (Some (body0 nonce0))) = 401
   \<and> status (POST mock T0 (Some (JObj [(''address'', JStr ''0xabcd''), (''signature'', envelope0)]))) = 400"
proof -
  have p: "fieldsPresent (body0 nonce0)"
    by (rule fieldsPresent_body0) (simp add: nonce0_def)
  have q: "\<not> fieldsPresent (JObj [(''address'', JStr ''0xabcd''), (''signature'', envelope0)])"
    by (simp add: fieldsPresent_def field_def)
  have b: "body0 nonce0 \<noteq> JNull" "body0 nonce0 \<noteq> JUndefined"
    by (simp_all add: body0_def)
  from create_jwt_outcome [where request = "Some (body0 nonce0)" and env = mock and now = T0]
    create_jwt_outcome [where request = "Some (body0 nonce0)" and env = mock and now = "T0 + 300001"]
    create_jwt_outcome [where request = "Some (JObj [(''address'', JStr ''0xabcd''), (''signature'', envelope0)])"
      and env = mock and now = T0]
    p q b
  show ?thesis
    by (simp add: checksPass_def field_body0 validateNonce_mock validateNonce_mock_fresh
        mock_verify0 createToken_mock NextResponse_json_def)
qed

text \<open>The body \<^verbatim>\<open>null\<close>: no field can be read, and the answer is 500, not 400.\<close>

theorem create_jwt_null_body:
  "\<not> fieldsPresent JNull \<and> status (POST mock T0 (Some JNull)) = 500"
  by (simp add: fieldsPresent_def field_def POST_def POST_try_def NextResponse_json_def)

text \<open>
  C2.  As stated the claim fails: there is a fifth reason.  \<open>validateNonce\<close> never
  throws, and it returns false exactly when one of the four listed reasons holds
  (\<open>nonceRejected\<close>: the value is not a string that splits on \<^verbatim>\<open>|\<close> into exactly
  three parts; the signature part does not verify as an authentic MAC over
  \<open>timestamp|random\<close> under the server secret; the age \<open>now - timestamp\<close> exceeds
  five minutes; the age is below minus sixty seconds) or when the signature part,
  though authentic, carries claims that fail the library's validation at the current
  time, such as an \<^verbatim>\<open>exp\<close> that has passed (\<open>nonceClaimsRefused\<close>); it returns true
  otherwise.  For a nonce created at \<open>T\<close>: at any instant more than five minutes later
  (\<open>T + 5min + 1ms\<close> among them) validation returns false, whatever the library does;
  and when the library is faithful on the nonce's claims set, validation at \<open>T + d\<close>
  returns true exactly for \<open>-60s \<le> d \<le> 5min\<close>, so at \<open>T + 4min59s\<close> it returns true.
\<close>

theorem validateNonce_rejects_exactly:
  "validateNonce env now nonce =
     Inr (\<not> (nonceRejected env now nonce \<or> nonceClaimsRefused env now nonce))
   \<and> (5 * 60 * 1000 < d \<longrightarrow> validateNonce env (T + d) (JStr (createNonce env T rnd)) = Inr False)
   \<and> (jws_faithful env HS256 (nonceClaims T rnd) \<longrightarrow>
        validateNonce env (T + d) (JStr (createNonce env T rnd)) = Inr (- (60 * 1000) \<le> d \<and> d \<le> 5 * 60 * 1000))"
proof -
  have "validateNonce env now nonce =
     Inr (\<not> (nonceRejected env now nonce \<or> nonceClaimsRefused env now nonce))"
  proof (cases nonce)
    case (JStr s)
    show ?thesis
    proof (cases "\<exists>t r g. split CHR ''|'' s = [t, r, g]")
      case True
      then obtain t r g where sp: "split CHR ''|'' s = [t, r, g]" by blast
      show ?thesis
        unfolding JStr validateNonce_three [OF sp]
        by (auto simp add: nonceRejected_def nonceClaimsRefused_def claimsRefused_def sp
            macAuthentic_def nonceAge_def jwtVerify_def secret_def
            split: sum.splits dest: validateClaims_Inr)
    next
      case False
      then have "\<forall>t r g. split CHR ''|'' s \<noteq> [t, r, g]" by blast
      from validateNonce_not_three [OF this] False show ?thesis
        by (auto simp add: JStr nonceRejected_def split: list.splits)
    qed
  qed (simp_all add: validateNonce_not_string nonceRejected_def)
  with validateNonce_expired [of d env T rnd] validateNonce_created [of env T rnd d]
  show ?thesis by simp
qed

text \<open>On the test doubles, for the nonce created at \<open>T0\<close>: rejected one millisecond
  after the five minutes, accepted at four minutes and fifty-nine seconds; a string
  without delimiter is rejected; and the three-part nonce whose authentic signature
  part carries an expired \<^verbatim>\<open>exp\<close> is rejected at the instant of its timestamp.\<close>

theorem validateNonce_rejects_exactly_witness:
  "validateNonce mock (T0 + 300001) (JStr (createNonce mock T0 rnd0)) = Inr False
   \<and> validateNonce mock (T0 + 299000) (JStr (createNonce mock T0 rnd0)) = Inr True
   \<and> validateNonce mock T0 (JStr ''not-a-nonce'') = Inr False
   \<and> nonceClaimsRefused mock_expiring T0 (JStr nonce_exp1)
   \<and> validateNonce mock_expiring T0 (JStr nonce_exp1) = Inr False"
proof -
  have r: "nonceClaimsRefused mock_expiring T0 (JStr nonce_exp1)"
    by (simp add: nonceClaimsRefused_def split_nonce_exp1 claimsRefused_def mock_expiring_def
        mock_def expiring_open_def validateClaims_def claimOf_def epoch_def T0_def)
  from validateNonce_rejects_exactly [of mock T0 "JStr ''not-a-nonce''" 300001 T0 rnd0]
    validateNonce_rejects_exactly [of mock T0 "JStr ''not-a-nonce''" 299000 T0 rnd0]
    validateNonce_rejects_exactly [of mock_expiring T0 "JStr nonce_exp1" 0 T0 rnd0]
    mock_faithful_nonce r
  show ?thesis by (simp add: nonceRejected_def)
qed

text \<open>The nonce \<open>nonce_exp1\<close> at clock reading \<open>T0\<close>: it has three parts, its
  signature part is authentic over \<open>timestamp|random\<close>, its age is zero, so none of
  the four listed reasons holds; yet it is rejected.\<close>

theorem validateNonce_rejects_unlisted:
  "split CHR ''|'' nonce_exp1 =
     [''1700000000000'', ''0123456789abcdef0011223344556677'', ''eyJhbGciOiJIUzI1NiJ9.ZXhwMQ.c2lnMw'']
   \<and> macAuthentic mock_expiring ''eyJhbGciOiJIUzI1NiJ9.ZXhwMQ.c2lnMw''
        ''1700000000000|0123456789abcdef0011223344556677''
   \<and> nonceAge T0 ''1700000000000'' = Some 0
   \<and> \<not> nonceRejected mock_expiring T0 (JStr nonce_exp1)
   \<and> validateNonce mock_expiring T0 (JStr nonce_exp1) = Inr False"
proof -
  have m: "macAuthentic mock_expiring ''eyJhbGciOiJIUzI1NiJ9.ZXhwMQ.c2lnMw''
        ''1700000000000|0123456789abcdef0011223344556677''"
    by (simp add: macAuthentic_def mock_expiring_def mock_def expiring_open_def)
  have a: "nonceAge T0 ''1700000000000'' = Some 0"
    by (simp add: nonceAge_def parseInt10_T0)
  have n: "\<not> nonceRejected mock_expiring T0 (JStr nonce_exp1)"
    using m a by (simp add: nonceRejected_def split_nonce_exp1 js_gt_def js_lt_def)
  have v: "validateNonce mock_expiring T0 (JStr nonce_exp1) = Inr False"
    unfolding validateNonce_three [OF split_nonce_exp1]
    by (simp add: jwtVerify_def mock_expiring_def mock_def expiring_open_def validateClaims_def
        claimOf_def epoch_def T0_def)
  from split_nonce_exp1 m a n v show ?thesis by simp
qed

text \<open>
  C3.  As stated the claim fails: \<open>verifyWalletSignature\<close> does not raise on a
  malformed hex field.  Its own \<^verbatim>\<open>try\<close>/\<^verbatim>\<open>catch\<close> covers the decoding and the
  signature check, so for every library, message, envelope and address the call
  returns a boolean; and when decoding either field throws, or the decoded signature
  or public key has the wrong size (on which the Ed25519 check throws), the value
  returned is false.  When both fields decode to 64 and 32 bytes, as a malformed
  string does that the decoder truncates to the right length, the value returned is
  the Ed25519 check on the decoded bytes.  The caller is handed false in each case of
  failed decoding: with the required fields present and a valid nonce,
  \<^verbatim>\<open>POST /create-jwt\<close> answers 401 and issues no token.
\<close>

theorem verifyWalletSignature_never_raises:
  "(\<exists>b. verifyWalletSignature env message signature address = Inr b)
   \<and> ((\<exists>e. hexField env signature ''signature'' = Inl e)
        \<or> (\<exists>e. hexField env signature ''publicKey'' = Inl e)
        \<or> (\<exists>sigBytes publicKeyBytes. hexField env signature ''signature'' = Inr sigBytes
               \<and> hexField env signature ''publicKey'' = Inr publicKeyBytes
               \<and> (length sigBytes \<noteq> 64 \<or> length publicKeyBytes \<noteq> 32))
       \<longrightarrow> verifyWalletSignature env message signature address = Inr False)
   \<and> (hexField env signature ''signature'' = Inr sb \<and> hexField env signature ''publicKey'' = Inr pb
        \<and> length sb = 64 \<and> length pb = 32
       \<longrightarrow> verifyWalletSignature env message signature address =
             Inr (crypto_sign_open env (TextEncoder_encode message) sb pb))
   \<and> (fieldsPresent json \<and> validateNonce env now (field json ''nonce'') = Inr True
        \<and> ((\<exists>e. hexField env (field json ''signature'') ''signature'' = Inl e)
             \<or> (\<exists>e. hexField env (field json ''signature'') ''publicKey'' = Inl e)
             \<or> (\<exists>sigBytes publicKeyBytes.
                    hexField env (field json ''signature'') ''signature'' = Inr sigBytes
                  \<and> hexField env (field json ''signature'') ''publicKey'' = Inr publicKeyBytes
                  \<and> (length sigBytes \<noteq> 64 \<or> length publicKeyBytes \<noteq> 32)))
       \<longrightarrow> status (POST env now (Some json)) = 401 \<and> \<not> tokenIssued (POST env now (Some json)))"
proof (intro conjI impI)
  show "\<exists>b. verifyWalletSignature env message signature address = Inr b"
    by (rule verifyWalletSignature_total)
next
  assume "(\<exists>e. hexField env signature ''signature'' = Inl e)
        \<or> (\<exists>e. hexField env signature ''publicKey'' = Inl e)
        \<or> (\<exists>sigBytes publicKeyBytes. hexField env signature ''signature'' = Inr sigBytes
               \<and> hexField env signature ''publicKey'' = Inr publicKeyBytes
               \<and> (length sigBytes \<noteq> 64 \<or> length publicKeyBytes \<noteq> 32))"
  from verifyWalletSignature_try_throws [OF this]
  show "verifyWalletSignature env message signature address = Inr False"
    using verifyWalletSignature_throw by blast
next
  assume "hexField env signature ''signature'' = Inr sb \<and> hexField env signature ''publicKey'' = Inr pb
        \<and> length sb = 64 \<and> length pb = 32"
  then show "verifyWalletSignature env message signature address =
             Inr (crypto_sign_open env (TextEncoder_encode message) sb pb)"
    by (simp add: verifyWalletSignature_def verifyWalletSignature_try_def
        nacl_sign_detached_verify_def)
next
  assume a: "fieldsPresent json \<and> validateNonce env now (field json ''nonce'') = Inr True
        \<and> ((\<exists>e. hexField env (field json ''signature'') ''signature'' = Inl e)
             \<or> (\<exists>e. hexField env (field json ''signature'') ''publicKey'' = Inl e)
             \<or> (\<exists>sigBytes publicKeyBytes.
                    hexField env (field json ''signature'') ''signature'' = Inr sigBytes
                  \<and> hexField env (field json ''signature'') ''publicKey'' = Inr publicKeyBytes
                  \<and> (length sigBytes \<noteq> 64 \<or> length publicKeyBytes \<noteq> 32)))"
  then have "\<exists>e. verifyWalletSignature_try env AUTH_MESSAGE (field json ''signature'') (field json ''address'') = Inl e"
    using verifyWalletSignature_try_throws
      [of env "field json ''signature''" AUTH_MESSAGE "field json ''address''"]
    by blast
  then have "verifyWalletSignature env AUTH_MESSAGE (field json ''signature'') (field json ''address'') = Inr False"
    using verifyWalletSignature_throw by blast
  with a show "status (POST env now (Some json)) = 401" and "\<not> tokenIssued (POST env now (Some json))"
    by (simp_all add: POST_present NextResponse_json_def tokenIssued_def)
qed

text \<open>On the test doubles.  Under the decoder that throws: a public key of odd
  length, alone and in a request with a fresh nonce.  Under the decoder that
  truncates: the same key comes out one byte long; a request whose signature is not
  hex at all decodes to no byte and is answered 401; and a signature followed by two
  characters that are not hex decodes to its 64 bytes and is verified on them.\<close>

theorem verifyWalletSignature_never_raises_witness:
  "hexField mock (JObj [(''signature'', JStr sig0), (''publicKey'', JStr ''0x123'')]) ''publicKey'' =
     Inl (TypeError ''Invalid hex string'')
   \<and> verifyWalletSignature mock AUTH_MESSAGE
       (JObj [(''signature'', JStr sig0), (''publicKey'', JStr ''0x123'')]) (JStr ''0xabcd'') = Inr False
   \<and> status (POST mock T0 (Some (JObj [(''address'', JStr ''0xabcd''),
        (''signature'', JObj [(''signature'', JStr sig0), (''publicKey'', JStr ''0x123'')]),
        (''nonce'', JStr nonce0)]))) = 401
   \<and> hexField mock_lenient (JObj [(''signature'', JStr sig0), (''publicKey'', JStr ''0x123'')]) ''publicKey'' =
     Inr [18]
   \<and> verifyWalletSignature mock_lenient AUTH_MESSAGE
       (JObj [(''signature'', JStr sig0), (''publicKey'', JStr ''0x123'')]) (JStr ''0xabcd'') = Inr False
   \<and> hexField mock_lenient (JObj [(''signature'', JStr ''0xzz''), (''publicKey'', JStr pk0)]) ''signature'' =
     Inr []
   \<and> status (POST mock_lenient T0 (Some (JObj [(''address'', JStr ''0xabcd''),
        (''signature'', JObj [(''signature'', JStr ''0xzz''), (''publicKey'', JStr pk0)]),
        (''nonce'', JStr nonce0)]))) = 401
   \<and> verifyWalletSignature mock_lenient AUTH_MESSAGE
       (JObj [(''signature'', JStr (sig0 @ ''zz'')), (''publicKey'', JStr pk0)]) (JStr ''0xabcd'') = Inr True"
proof -
  let ?bad = "JObj [(''signature'', JStr sig0), (''publicKey'', JStr ''0x123'')]"
  let ?json = "JObj [(''address'', JStr ''0xabcd''), (''signature'', ?bad), (''nonce'', JStr nonce0)]"
  let ?zz = "JObj [(''signature'', JStr ''0xzz''), (''publicKey'', JStr pk0)]"
  let ?jzz = "JObj [(''address'', JStr ''0xabcd''), (''signature'', ?zz), (''nonce'', JStr nonce0)]"
  let ?trail = "JObj [(''signature'', JStr (sig0 @ ''zz'')), (''publicKey'', JStr pk0)]"
  have h: "hexField mock ?bad ''publicKey'' = Inl (TypeError ''Invalid hex string'')"
    by (simp add: hexField_def mock_def mock_Buffer_from_hex_def)
  have f: "fieldsPresent ?json" "field ?json ''nonce'' = JStr nonce0" "field ?json ''signature'' = ?bad"
    by (simp_all add: fieldsPresent_def field_def sig0_def nonce0_def)
  have n: "validateNonce mock T0 (JStr nonce0) = Inr True"
    by (rule validateNonce_mock_fresh)
  have k: "hexField mock_lenient ?bad ''publicKey'' = Inr [18]"
    by (simp add: hexField_def mock_lenient_def mock_def lenient_Buffer_from_hex_def)
  have g: "\<exists>bs. hexField mock_lenient ?bad ''signature'' = Inr bs"
    by (simp add: hexField_def mock_lenient_def mock_def lenient_Buffer_from_hex_def)
  from verifyWalletSignature_never_raises [of mock AUTH_MESSAGE ?bad "JStr ''0xabcd''" _ _ ?json T0] h f n
  have strict: "verifyWalletSignature mock AUTH_MESSAGE ?bad (JStr ''0xabcd'') = Inr False"
      "status (POST mock T0 (Some ?json)) = 401"
    by simp_all
  from verifyWalletSignature_never_raises [of mock_lenient AUTH_MESSAGE ?bad "JStr ''0xabcd''"] k g
  have lenient: "verifyWalletSignature mock_lenient AUTH_MESSAGE ?bad (JStr ''0xabcd'') = Inr False"
    by auto
  have z: "hexField mock_lenient ?zz ''signature'' = Inr []"
    by (simp add: hexField_def mock_lenient_def mock_def lenient_Buffer_from_hex_def)
  have zp: "\<exists>bs. hexField mock_lenient ?zz ''publicKey'' = Inr bs"
    by (simp add: hexField_def mock_lenient_def mock_def lenient_Buffer_from_hex_def)
  have fz: "fieldsPresent ?jzz" "field ?jzz ''nonce'' = JStr nonce0" "field ?jzz ''signature'' = ?zz"
    by (simp_all add: fieldsPresent_def field_def pk0_def nonce0_def)
  from verifyWalletSignature_never_raises [of mock_lenient AUTH_MESSAGE ?zz "JStr ''0xabcd''" _ _ ?jzz T0]
    z zp fz validateNonce_lenient_fresh
  have post: "status (POST mock_lenient T0 (Some ?jzz)) = 401"
    by auto
  obtain sb pb where d: "hexField mock_lenient ?trail ''signature'' = Inr sb"
      "hexField mock_lenient ?trail ''publicKey'' = Inr pb" "length sb = 64" "length pb = 32"
      "crypto_sign_open mock_lenient (TextEncoder_encode AUTH_MESSAGE) sb pb"
    by (simp add: hexField_def mock_lenient_def mock_def lenient_Buffer_from_hex_def sig0_def pk0_def
        mock_crypto_sign_open_def)
  from verifyWalletSignature_never_raises [of mock_lenient AUTH_MESSAGE ?trail "JStr ''0xabcd''" sb pb] d
  have trail: "verifyWalletSignature mock_lenient AUTH_MESSAGE ?trail (JStr ''0xabcd'') = Inr True"
    by simp
  from h k z strict lenient post trail show ?thesis by simp
qed

text \<open>A signature field that is not hex at all.  With the decoder that throws, the
  exception is caught and the verifier returns false; with the decoder that
  truncates, the signature has no byte, the size check throws, and the verifier
  returns false as well.\<close>

theorem verifyWalletSignature_malformed_hex_returns_false:
  "hexField mock (JObj [(''signature'', JStr ''0xzz''), (''publicKey'', JStr pk0)]) ''signature'' =
     Inl (TypeError ''Invalid hex string'')
   \<and> verifyWalletSignature mock AUTH_MESSAGE
       (JObj [(''signature'', JStr ''0xzz''), (''publicKey'', JStr pk0)]) (JStr ''0xabcd'') = Inr False
   \<and> hexField mock_lenient (JObj [(''signature'', JStr ''0xzz''), (''publicKey'', JStr pk0)]) ''signature'' =
     Inr []
   \<and> verifyWalletSignature mock_lenient AUTH_MESSAGE
       (JObj [(''signature'', JStr ''0xzz''), (''publicKey'', JStr pk0)]) (JStr ''0xabcd'') = Inr False"
  by (simp add: verifyWalletSignature_def verifyWalletSignature_try_def hexField_def
      nacl_sign_detached_verify_def mock_lenient_def lenient_Buffer_from_hex_def
      mock_def mock_Buffer_from_hex_def)

text \<open>
  C4.  The result of \<open>verifyWalletSignature\<close> does not depend on the claimed address:
  for every library, message and signature envelope, and for every two addresses, the
  two calls return the same value.  The function never compares the public key with
  the address; the address is not read at all.
\<close>

theorem verifyWalletSignature_ignores_address:
  "verifyWalletSignature env message signature a1 = verifyWalletSignature env message signature a2"
  by (simp add: verifyWalletSignature_def verifyWalletSignature_try_def)

text \<open>On the test double: the envelope signed for no particular address is accepted
  for the address \<^verbatim>\<open>0xabcd\<close> and for any other value, here \<^verbatim>\<open>0xffff\<close>.\<close>

theorem verifyWalletSignature_ignores_address_witness:
  "verifyWalletSignature mock AUTH_MESSAGE envelope0 (JStr ''0xffff'') = Inr True"
  using verifyWalletSignature_ignores_address [of mock AUTH_MESSAGE envelope0 "JStr ''0xffff''" "JStr ''0xabcd''"]
  by (simp add: mock_verify0)

text \<open>
  C5.  Nonce round trip.  When the library is faithful on the claims set the nonce
  signs, validating a created nonce at the clock reading of its creation returns
  true.  The created nonce splits on \<^verbatim>\<open>|\<close> into exactly its three fields, timestamp,
  random and signature, and the delimiter occurs in none of them: the timestamp is
  decimal digits after an optional minus sign, the random part is lower-case hex, and
  the signature is base64url with dots.
\<close>

theorem nonce_roundtrip:
  assumes "jws_faithful env HS256 (nonceClaims now rnd)"
  shows "validateNonce env now (JStr (createNonce env now rnd)) = Inr True
       \<and> split CHR ''|'' (createNonce env now rnd) =
           [Number_toString now, randomHex rnd, nonceSignature env now rnd]
       \<and> CHR ''|'' \<notin> set (Number_toString now)
       \<and> CHR ''|'' \<notin> set (randomHex rnd)
       \<and> CHR ''|'' \<notin> set (nonceSignature env now rnd)"
proof -
  have sg: "CHR ''|'' \<notin> set (nonceSignature env now rnd)"
    using assms pipe_not_base64url by (auto simp add: jws_faithful_def nonceSignature_eq)
  from validateNonce_created [OF assms, of 0]
  have "validateNonce env now (JStr (createNonce env now rnd)) = Inr True" by simp
  with sg split_createNonce [OF sg] show ?thesis
    by (simp add: Number_toString_no_pipe randomHex_no_pipe)
qed

theorem nonce_roundtrip_witness:
  "validateNonce mock T0 (JStr (createNonce mock T0 rnd0)) = Inr True
   \<and> split CHR ''|'' (createNonce mock T0 rnd0) =
       [''1700000000000'', ''0123456789abcdef0011223344556677'', ''eyJhbGciOiJIUzI1NiJ9.bm9uY2U.c2lnMQ'']"
  using nonce_roundtrip [OF mock_faithful_nonce]
  by (simp add: Number_toString_T0 randomHex_rnd0 nonceSignature_eq nonceClaims_def noncePayload_T0
      mock_def mock_sign_def mock_jws_def)

text \<open>
  C6.  Nonce tamper sensitivity.  Let a nonce with timestamp segment \<open>t\<close>, random
  segment \<open>r\<close> and signature segment \<open>g\<close> validate as true.  Then replacing the
  character at any one position of \<open>t\<close>, or at any one position of \<open>r\<close>, by a
  different character, with \<open>g\<close> unchanged, gives a string on which \<open>validateNonce\<close>
  returns false, at every clock reading and for every library.
\<close>

theorem nonce_tamper_rejected:
  assumes "validateNonce env now (JStr (t @ ''|'' @ r @ ''|'' @ g)) = Inr True"
  shows "split CHR ''|'' (t @ ''|'' @ r @ ''|'' @ g) = [t, r, g]
       \<and> (i < length t \<and> c \<noteq> t ! i \<longrightarrow>
            validateNonce env now' (JStr (t[i := c] @ ''|'' @ r @ ''|'' @ g)) = Inr False)
       \<and> (i < length r \<and> c \<noteq> r ! i \<longrightarrow>
            validateNonce env now' (JStr (t @ ''|'' @ r[i := c] @ ''|'' @ g)) = Inr False)"
proof -
  from validateNonce_True_parts [OF assms]
  obtain a b d where sp: "split CHR ''|'' (t @ ''|'' @ r @ ''|'' @ g) = [a, b, d]" by blast
  with split_three_unique [of "CHR ''|''" t r g a b d]
  have parts: "split CHR ''|'' (t @ ''|'' @ r @ ''|'' @ g) = [t, r, g]" by simp
  have "t[i := c] \<noteq> t" if "i < length t" and "c \<noteq> t ! i"
    using that by (metis nth_list_update_eq)
  moreover have "r[i := c] \<noteq> r" if "i < length r" and "c \<noteq> r ! i"
    using that by (metis nth_list_update_eq)
  ultimately show ?thesis
    using parts tamper_general [OF assms, of "t[i := c]" r now']
      tamper_general [OF assms, of t "r[i := c]" now']
    by blast
qed

theorem nonce_tamper_rejected_witness:
  "validateNonce mock T0 (JStr ''1700000000000|0123456789abcdef0011223344556677|eyJhbGciOiJIUzI1NiJ9.bm9uY2U.c2lnMQ'') = Inr True
   \<and> validateNonce mock T0 (JStr ''1700000000001|0123456789abcdef0011223344556677|eyJhbGciOiJIUzI1NiJ9.bm9uY2U.c2lnMQ'') = Inr False
   \<and> validateNonce mock T0 (JStr ''1700000000000|1123456789abcdef0011223344556677|eyJhbGciOiJIUzI1NiJ9.bm9uY2U.c2lnMQ'') = Inr False"
proof -
  have created: "createNonce mock T0 rnd0 =
      ''1700000000000'' @ ''|'' @ ''0123456789abcdef0011223344556677'' @ ''|'' @ ''eyJhbGciOiJIUzI1NiJ9.bm9uY2U.c2lnMQ''"
    by (simp add: createNonce_def noncePayload_T0 nonceSignature_eq nonceClaims_def
        mock_def mock_sign_def mock_jws_def)
  have valid: "validateNonce mock T0
      (JStr (''1700000000000'' @ ''|'' @ ''0123456789abcdef0011223344556677'' @ ''|'' @ ''eyJhbGciOiJIUzI1NiJ9.bm9uY2U.c2lnMQ'')) = Inr True"
    using validateNonce_created [OF mock_faithful_nonce, of 0] unfolding created by simp
  from nonce_tamper_rejected [OF valid, of 12 "CHR ''1''" T0]
    nonce_tamper_rejected [OF valid, of 0 "CHR ''1''" T0] valid
  show ?thesis by simp
qed

text \<open>
  C7.  Token round trip.  When the library is faithful on the claims set of the token,
  verifying the token created for an address string, at any clock reading whose second
  lies before the expiry (the instant of creation among them), returns a payload that
  is not \<^verbatim>\<open>null\<close> and whose \<^verbatim>\<open>address\<close> is the given address.
\<close>

theorem token_roundtrip:
  assumes "jws_faithful env HS256 (JObj [(''address'', JStr a), (''exp'', JNum (epoch now + secs_24h))])"
    and "epoch now' < epoch now + secs_24h"
  shows "\<exists>payload. verifyToken env now' (JStr (createToken env now (JStr a))) = Inr payload
           \<and> payload \<noteq> JNull \<and> getProp payload ''address'' = Inr (JStr a)"
  using verifyToken_createToken [OF assms] by simp

theorem token_roundtrip_witness:
  "\<exists>payload. verifyToken mock T0 (JStr (createToken mock T0 (JStr ''0xabcd''))) = Inr payload
     \<and> payload \<noteq> JNull \<and> getProp payload ''address'' = Inr (JStr ''0xabcd'')"
proof -
  have "epoch T0 < epoch T0 + secs_24h" by (simp add: secs_24h_def)
  from token_roundtrip [OF mock_faithful_token this] show ?thesis .
qed



text \<open>
  C9.  As stated the claim fails: the token carries no issuance time.  What
  \<open>createToken\<close> signs, for every library, clock reading and address, is the claims
  set holding exactly the address and \<^verbatim>\<open>exp\<close>, the issuance time in whole seconds
  plus 24 hours (86400 seconds), under the protected header \<^verbatim>\<open>{alg: HS256}\<close> and the
  server secret.  There is no \<^verbatim>\<open>iat\<close> claim.
\<close>

theorem createToken_claims:
  "createToken env now address =
     jws_sign env (TextEncoder_encode (JWT_SECRET env)) (JObj [(''alg'', JStr ''HS256'')])
       (JObj [(''address'', address), (''exp'', JNum (now div 1000 + 86400))])
   \<and> claimOf (jwt_payload (tokenClaims now address)) ''exp'' = JNum (now div 1000 + 86400)
   \<and> claimOf (jwt_payload (tokenClaims now address)) ''iat'' = JUndefined"
  by (simp add: createToken_unfold secret_def HS256_def epoch_def secs_24h_def tokenClaims_def
      setExpirationTime_def setProtectedHeader_def new_SignJWT_def claimOf_def)

text \<open>The token for \<^verbatim>\<open>0xabcd\<close> issued at clock reading \<open>T0\<close> verifies to the claims
  set with the address and the expiry only, and reading its \<^verbatim>\<open>iat\<close> gives
  \<^verbatim>\<open>undefined\<close>.\<close>

theorem createToken_no_issuedAt:
  "jwtVerify mock T0 (JStr (createToken mock T0 (JStr ''0xabcd''))) (secret mock) =
     Inr (JObj [(''address'', JStr ''0xabcd''), (''exp'', JNum 1700086400)])
   \<and> getProp (JObj [(''address'', JStr ''0xabcd''), (''exp'', JNum 1700086400)]) ''iat'' = Inr JUndefined"
  by (simp add: createToken_unfold T0_def epoch_def secs_24h_def jwtVerify_def validateClaims_def
      claimOf_def mock_def mock_sign_def mock_open_def mock_jws_def)

text \<open>
  C10.  A token that verifies under the server secret and is not expired, but whose
  claims set has no \<^verbatim>\<open>address\<close>, is accepted: \<open>verifyToken\<close> returns its claims
  set, and \<^verbatim>\<open>GET /check\<close> with that token in the \<^verbatim>\<open>authToken\<close> cookie answers 200
  with \<^verbatim>\<open>authenticated: true\<close> and an \<^verbatim>\<open>undefined\<close> address.  Such tokens exist
  whenever the library is faithful: the signature segment of every nonce the server
  hands out is one, at every clock reading.
\<close>

theorem check_accepts_token_without_address:
  "(tok \<noteq> [] \<and> jws_open env (secret env) tok = Inr (JObj kvs)
      \<and> check_iat (claimOf kvs ''iat'') \<and> check_nbf (epoch now) (claimOf kvs ''nbf'')
      \<and> check_exp (epoch now) (claimOf kvs ''exp'') \<and> claimOf kvs ''address'' = JUndefined
    \<longrightarrow> verifyToken env now (JStr tok) = Inr (JObj kvs)
        \<and> GET env now [''authToken'' \<mapsto> tok] =
            NextResponse_json [(''authenticated'', JBool True), (''address'', JUndefined)] 200)
   \<and> (jws_faithful env HS256 (nonceClaims T rnd)
    \<longrightarrow> verifyToken env now (JStr (nonceSignature env T rnd)) = Inr (nonceClaims T rnd)
        \<and> getProp (nonceClaims T rnd) ''address'' = Inr JUndefined
        \<and> GET env now [''authToken'' \<mapsto> nonceSignature env T rnd] =
            NextResponse_json [(''authenticated'', JBool True), (''address'', JUndefined)] 200)"
proof (intro conjI impI)
  assume a: "tok \<noteq> [] \<and> jws_open env (secret env) tok = Inr (JObj kvs)
      \<and> check_iat (claimOf kvs ''iat'') \<and> check_nbf (epoch now) (claimOf kvs ''nbf'')
      \<and> check_exp (epoch now) (claimOf kvs ''exp'') \<and> claimOf kvs ''address'' = JUndefined"
  then have "jwtVerify env now (JStr tok) (secret env) = Inr (JObj kvs)"
    by (simp add: jwtVerify_valid)
  with a show v: "verifyToken env now (JStr tok) = Inr (JObj kvs)"
    by (simp add: verifyToken_def)
  from a have "getProp (JObj kvs) ''address'' = Inr JUndefined"
    by (simp add: claimOf_def)
  with a v show "GET env now [''authToken'' \<mapsto> tok] =
            NextResponse_json [(''authenticated'', JBool True), (''address'', JUndefined)] 200"
    by (simp add: GET_def GET_try_def cookieValue_def)
next
  assume f: "jws_faithful env HS256 (nonceClaims T rnd)"
  then have ne: "nonceSignature env T rnd \<noteq> []"
    by (simp add: jws_faithful_def nonceSignature_eq)
  with jwtVerify_nonceSignature [OF f, of now]
  show v: "verifyToken env now (JStr (nonceSignature env T rnd)) = Inr (nonceClaims T rnd)"
    by (simp add: verifyToken_def)
  show g: "getProp (nonceClaims T rnd) ''address'' = Inr JUndefined"
    by (simp add: nonceClaims_def)
  from ne v g show "GET env now [''authToken'' \<mapsto> nonceSignature env T rnd] =
            NextResponse_json [(''authenticated'', JBool True), (''address'', JUndefined)] 200"
    by (simp add: GET_def GET_try_def cookieValue_def nonceClaims_def)
qed

text \<open>On the test double: the signature segment of the nonce created at \<open>T0\<close>, sent
  as the cookie a day later.\<close>

theorem check_accepts_token_without_address_witness:
  "verifyToken mock (T0 + 86400000) (JStr ''eyJhbGciOiJIUzI1NiJ9.bm9uY2U.c2lnMQ'') =
     Inr (JObj [(''payload'', JStr ''1700000000000|0123456789abcdef0011223344556677'')])
   \<and> GET mock (T0 + 86400000) [''authToken'' \<mapsto> ''eyJhbGciOiJIUzI1NiJ9.bm9uY2U.c2lnMQ''] =
     \<lparr>status = 200, body = [(''authenticated'', JBool True), (''address'', JUndefined)]\<rparr>
   \<and> GET mock (T0 + 86400000) [''authToken'' \<mapsto> nonceSignature mock T0 rnd0] =
     \<lparr>status = 200, body = [(''authenticated'', JBool True), (''address'', JUndefined)]\<rparr>"
proof -
  have opened: "jws_open mock (secret mock) ''eyJhbGciOiJIUzI1NiJ9.bm9uY2U.c2lnMQ'' =
      Inr (JObj [(''payload'', JStr ''1700000000000|0123456789abcdef0011223344556677'')])"
    by (simp add: mock_def mock_open_def mock_jws_def)
  have claims: "claimOf [(''payload'', JStr ''1700000000000|0123456789abcdef0011223344556677'')] k = JUndefined"
    if "k \<noteq> ''payload''" for k
    using that by (simp add: claimOf_def)
  from check_accepts_token_without_address [of "''eyJhbGciOiJIUzI1NiJ9.bm9uY2U.c2lnMQ''" mock
      "[(''payload'', JStr ''1700000000000|0123456789abcdef0011223344556677'')]" "T0 + 86400000" T0 rnd0]
    opened mock_faithful_nonce
  show ?thesis by (simp add: claims NextResponse_json_def)
qed

end
